theory Spec2Isabelle
  imports Complex_Main "HOL-Library.Word" "HOL-Library.Log_Nat"
begin

section \<open>BoxChamp: live state extraction and the rule-driven action engine\<close>

text \<open>
  A shallow embedding of the memory reader (\<^verbatim>\<open>MemoryReader\<close>), the condition evaluator
  (\<^verbatim>\<open>_check_condition\<close>), the rotation engine (\<^verbatim>\<open>_thread_rotation_engine\<close>) and the
  target resolution of macros (\<^verbatim>\<open>_targets_for\<close>, \<^verbatim>\<open>_run_macro_body\<close>) of
  \<^verbatim>\<open>src/BoxChamp.py\<close>. Python names that start with an underscore lose it, since an
  Isabelle name cannot start with one.
\<close>

subsection \<open>Python values and exceptions\<close>

datatype py_error =
  MemoryReadError | TypeError | ValueError | OverflowError | ZeroDivisionError | AttributeError

text \<open>
  A finite Python float is the rational it denotes. \<open>fl\<close> rounds a rational to the nearest
  double (53 bits of mantissa, ties to the even mantissa); exponent range and subnormals
  are left out, the values of this program being far inside the normal range.
\<close>

type_synonym pyfloat = rat

definition pow2 :: "int \<Rightarrow> rat" where
  "pow2 k = (if 0 \<le> k then 2 ^ nat k else 1 / 2 ^ nat (- k))"

definition round_half_even :: "rat \<Rightarrow> int" where
  "round_half_even q =
     (let f = \<lfloor>q\<rfloor>; d = q - of_int f
      in if d < 1 / 2 then f else if 1 / 2 < d then f + 1 else if even f then f else f + 1)"

definition ilog2 :: "rat \<Rightarrow> int" where
  "ilog2 q =
     (let k = bitlen (fst (quotient_of q)) - bitlen (snd (quotient_of q))
      in if pow2 k \<le> q then k else k - 1)"

definition fl :: "rat \<Rightarrow> pyfloat" where
  "fl q =
     (if q = 0 then 0
      else let e = ilog2 \<bar>q\<bar> - 52 in of_int (round_half_even (q / pow2 e)) * pow2 e)"

text \<open>\<^verbatim>\<open>a / b\<close> on Python ints, \<^verbatim>\<open>x * y\<close> and \<^verbatim>\<open>x - y\<close> on floats, \<^verbatim>\<open>round(x)\<close>.\<close>

definition py_truediv :: "int \<Rightarrow> int \<Rightarrow> py_error + pyfloat" where
  "py_truediv a b = (if b = 0 then Inl ZeroDivisionError else Inr (fl (of_int a / of_int b)))"

definition py_fmul :: "pyfloat \<Rightarrow> pyfloat \<Rightarrow> pyfloat" where
  "py_fmul x y = fl (x * y)"

definition py_fsub :: "pyfloat \<Rightarrow> pyfloat \<Rightarrow> pyfloat" where
  "py_fsub x y = fl (x - y)"

definition py_round :: "pyfloat \<Rightarrow> int" where
  "py_round x = round_half_even x"

subsection \<open>Memory reading constants (WoW 3.3.5a 12340)\<close>

definition CUR_MGR_POINTER :: nat where "CUR_MGR_POINTER = 0x00C79CE0"
definition CUR_MGR_OFFSET :: nat where "CUR_MGR_OFFSET = 0x2ED0"
definition FIRST_OBJECT_OFFSET :: nat where "FIRST_OBJECT_OFFSET = 0xAC"
definition NEXT_OBJECT_OFFSET :: nat where "NEXT_OBJECT_OFFSET = 0x3C"
definition LOCAL_GUID_OFFSET :: nat where "LOCAL_GUID_OFFSET = 0xC0"
definition OBJECT_GUID_OFFSET :: nat where "OBJECT_GUID_OFFSET = 0x30"
definition M_STORAGE_OFFSET :: nat where "M_STORAGE_OFFSET = 0x8"
definition TARGET_GUID_STATIC :: nat where "TARGET_GUID_STATIC = 0x00BD07B0"
definition COMBO_POINTS_STATIC :: nat where "COMBO_POINTS_STATIC = 0x00BD084D"
definition UNIT_FIELD_HEALTH :: nat where "UNIT_FIELD_HEALTH = 0x18 * 4"
definition UNIT_FIELD_MAXHEALTH :: nat where "UNIT_FIELD_MAXHEALTH = 0x20 * 4"
definition UNIT_FIELD_POWER1 :: nat where "UNIT_FIELD_POWER1 = 0x19 * 4"
definition UNIT_FIELD_MAXPOWER1 :: nat where "UNIT_FIELD_MAXPOWER1 = 0x21 * 4"
definition UNIT_FIELD_LEVEL :: nat where "UNIT_FIELD_LEVEL = 0x36 * 4"
definition UNIT_NAME_1 :: nat where "UNIT_NAME_1 = 0x964"
definition UNIT_NAME_2 :: nat where "UNIT_NAME_2 = 0x5C"

subsection \<open>The remote process and the memory reader\<close>

text \<open>
  \<^verbatim>\<open>Pymem\<close> is a library: the model takes its typed reads as they come, one partial
  function per read, \<open>None\<close> where the read raises. An address is a Python int; the value
  of a read has the width of its type (\<^verbatim>\<open>read_int\<close> is read as two's complement).
  The remote memory does not change during one call.
\<close>

record memory =
  read_uint :: "nat \<Rightarrow> 32 word option"
  read_int :: "nat \<Rightarrow> 32 word option"
  read_ulonglong :: "nat \<Rightarrow> 64 word option"
  read_uchar :: "nat \<Rightarrow> 8 word option"
  read_string :: "nat \<Rightarrow> string option"

record MemoryReader =
  pm :: memory
  object_manager_base :: nat

text \<open>\<^verbatim>\<open>_get_object_manager_base\<close>: the result and the reader with its cache.\<close>

definition get_object_manager_base :: "MemoryReader \<Rightarrow> nat \<times> MemoryReader" where
  "get_object_manager_base self =
     (if object_manager_base self \<noteq> 0 then (object_manager_base self, self)
      else case read_uint (pm self) CUR_MGR_POINTER of
          None \<Rightarrow> (0, self\<lparr>object_manager_base := 0\<rparr>)
        | Some client_connection \<Rightarrow>
            if client_connection = 0 then (0, self)
            else (case read_uint (pm self) (unat client_connection + CUR_MGR_OFFSET) of
                None \<Rightarrow> (0, self\<lparr>object_manager_base := 0\<rparr>)
              | Some b \<Rightarrow> (unat b, self\<lparr>object_manager_base := unat b\<rparr>)))"

text \<open>
  The loop \<^verbatim>\<open>for _ in range(n)\<close> of \<^verbatim>\<open>_find_object_base_by_guid\<close>, from the value of
  \<^verbatim>\<open>current_obj\<close>: the value the function returns after it, and beside it the number of
  times the loop body was entered (a counter the source does not have). A read that
  raises inside the \<^verbatim>\<open>try\<close> leaves the loop.
\<close>

primrec find_loop :: "memory \<Rightarrow> 64 word \<Rightarrow> nat \<Rightarrow> nat \<Rightarrow> nat \<times> nat" where
  "find_loop m guid_to_find 0 current_obj = (0, 0)"
| "find_loop m guid_to_find (Suc n) current_obj =
     (if current_obj = 0 then (0, 1)
      else case read_ulonglong m (current_obj + OBJECT_GUID_OFFSET) of
          None \<Rightarrow> (0, 1)
        | Some obj_guid \<Rightarrow>
            if obj_guid = guid_to_find then (current_obj, 1)
            else (case read_uint m (current_obj + NEXT_OBJECT_OFFSET) of
                None \<Rightarrow> (0, 1)
              | Some nxt \<Rightarrow>
                  (let r = find_loop m guid_to_find n (unat nxt) in (fst r, Suc (snd r)))))"

text \<open>
  \<^verbatim>\<open>_find_object_base_by_guid\<close>. The first read is outside the \<^verbatim>\<open>try\<close>: when it raises,
  so does the function.
\<close>

definition find_object_base_by_guid ::
  "MemoryReader \<Rightarrow> 64 word \<Rightarrow> (py_error + nat) \<times> MemoryReader" where
  "find_object_base_by_guid self guid_to_find =
     (let (obj_mgr, self') = get_object_manager_base self
      in if obj_mgr = 0 \<or> guid_to_find = 0 then (Inr 0, self')
         else case read_uint (pm self') (obj_mgr + FIRST_OBJECT_OFFSET) of
             None \<Rightarrow> (Inl MemoryReadError, self')
           | Some first \<Rightarrow> (Inr (fst (find_loop (pm self') guid_to_find 4096 (unat first))), self'))"

text \<open>
  The nodes of the next-pointer chain that start at an address, at most \<open>n\<close> of them: the
  chain ends at a null pointer and where the next pointer cannot be read.
\<close>

primrec chain :: "memory \<Rightarrow> nat \<Rightarrow> nat \<Rightarrow> nat list" where
  "chain m 0 a = []"
| "chain m (Suc n) a =
     (if a = 0 then []
      else a # (case read_uint m (a + NEXT_OBJECT_OFFSET) of
                  None \<Rightarrow> [] | Some nxt \<Rightarrow> chain m n (unat nxt)))"

subsection \<open>The snapshot\<close>

text \<open>
  The values a snapshot and a condition hold: \<^verbatim>\<open>None\<close>, \<^verbatim>\<open>bool\<close>, \<^verbatim>\<open>int\<close> and \<^verbatim>\<open>str\<close>.
  The snapshot is the Python dict, a map from field names to values.
\<close>

datatype pyval = PNone | PBool bool | PInt int | PStr string

type_synonym stats = "string \<rightharpoonup> pyval"

definition initial_stats :: stats where
  "initial_stats =
     [''player_hp'' \<mapsto> PInt 0, ''player_max_hp'' \<mapsto> PInt 0, ''player_mp'' \<mapsto> PInt 0,
      ''player_max_mp'' \<mapsto> PInt 0, ''player_hp_percent'' \<mapsto> PInt 0,
      ''player_mp_percent'' \<mapsto> PInt 0, ''player_level'' \<mapsto> PInt 0,
      ''target_hp'' \<mapsto> PInt 0, ''target_max_hp'' \<mapsto> PInt 0,
      ''target_hp_percent'' \<mapsto> PInt 0, ''target_level'' \<mapsto> PInt 0,
      ''has_target'' \<mapsto> PBool False, ''target_name'' \<mapsto> PStr [], ''combo_points'' \<mapsto> PInt 0]"

text \<open>\<^verbatim>\<open>round((a / b) * 100)\<close>, for Python ints \<open>a\<close> and \<open>b\<close>.\<close>

definition percent_expr :: "int \<Rightarrow> int \<Rightarrow> py_error + int" where
  "percent_expr a b =
     (case py_truediv a b of Inl e \<Rightarrow> Inl e | Inr q \<Rightarrow> Inr (py_round (py_fmul q 100)))"

text \<open>The int that \<open>percent_expr\<close> returns where the divisor is not zero.\<close>

definition percent_value :: "int \<Rightarrow> int \<Rightarrow> int" where
  "percent_value a b = py_round (py_fmul (fl (of_int a / of_int b)) 100)"

text \<open>
  \<^verbatim>\<open>if stats[max] > 0: stats[key] = round((stats[value] / stats[max]) * 100)\<close>, which
  \<^verbatim>\<open>get_combat_stats\<close> has three times.
\<close>

definition set_percent :: "string \<Rightarrow> int \<Rightarrow> int \<Rightarrow> stats \<Rightarrow> py_error + stats" where
  "set_percent key v mx st =
     (if 0 < mx
      then (case percent_expr v mx of Inl e \<Rightarrow> Inl e | Inr p \<Rightarrow> Inr (st(key \<mapsto> PInt p)))
      else Inr st)"

text \<open>A read inside the outer \<^verbatim>\<open>try\<close>: when it raises, the rest is not run.\<close>

definition reading ::
  "'a option \<Rightarrow> MemoryReader \<Rightarrow> ('a \<Rightarrow> (py_error + 'b) \<times> MemoryReader)
     \<Rightarrow> (py_error + 'b) \<times> MemoryReader" where
  "reading r self k = (case r of None \<Rightarrow> (Inl MemoryReadError, self) | Some v \<Rightarrow> k v)"

text \<open>
  The inner \<^verbatim>\<open>try\<close> of \<^verbatim>\<open>get_combat_stats\<close>, the name of the target: a read that
  raises gives the empty name, a null pointer leaves the name as it was.
\<close>

definition read_target_name :: "memory \<Rightarrow> nat \<Rightarrow> stats \<Rightarrow> stats" where
  "read_target_name m target_base st =
     (case read_uint m (target_base + UNIT_NAME_1) of
        None \<Rightarrow> st(''target_name'' \<mapsto> PStr [])
      | Some name_ptr_1 \<Rightarrow>
          if name_ptr_1 = 0 then st
          else (case read_uint m (unat name_ptr_1 + UNIT_NAME_2) of
              None \<Rightarrow> st(''target_name'' \<mapsto> PStr [])
            | Some name_ptr_2 \<Rightarrow>
                if name_ptr_2 = 0 then st
                else (case read_string m (unat name_ptr_2) of
                    None \<Rightarrow> st(''target_name'' \<mapsto> PStr [])
                  | Some name \<Rightarrow> st(''target_name'' \<mapsto> PStr name))))"

text \<open>The block under \<^verbatim>\<open>if target_base:\<close>, from the dict built so far.\<close>

definition read_target ::
  "MemoryReader \<Rightarrow> nat \<Rightarrow> stats \<Rightarrow> (py_error + stats option) \<times> MemoryReader" where
  "read_target self target_base st =
     (let m = pm self in
      reading (read_uint m (target_base + M_STORAGE_OFFSET)) self (\<lambda>target_desc_ptr.
        if target_desc_ptr = 0 then (Inr (Some (read_target_name m target_base st)), self)
        else
          reading (read_int m (unat target_desc_ptr + UNIT_FIELD_HEALTH)) self (\<lambda>target_hp.
          reading (read_int m (unat target_desc_ptr + UNIT_FIELD_MAXHEALTH)) self (\<lambda>target_max_hp.
          reading (read_int m (unat target_desc_ptr + UNIT_FIELD_LEVEL)) self (\<lambda>target_level.
            let st1 = st(''target_hp'' \<mapsto> PInt (sint target_hp),
                         ''target_max_hp'' \<mapsto> PInt (sint target_max_hp),
                         ''target_level'' \<mapsto> PInt (sint target_level))
            in case set_percent ''target_hp_percent'' (sint target_hp) (sint target_max_hp) st1 of
                 Inl e \<Rightarrow> (Inl e, self)
               | Inr st2 \<Rightarrow> (Inr (Some (read_target_name m target_base st2)), self))))))"

text \<open>
  The end of the outer \<^verbatim>\<open>try\<close> of \<^verbatim>\<open>get_combat_stats\<close>, from the read of the target
  GUID to \<^verbatim>\<open>return stats\<close>.
\<close>

definition read_target_part ::
  "MemoryReader \<Rightarrow> stats \<Rightarrow> (py_error + stats option) \<times> MemoryReader" where
  "read_target_part self st =
     reading (read_ulonglong (pm self) TARGET_GUID_STATIC) self (\<lambda>target_guid.
       if 0 < target_guid
       then
         (let st1 = st(''has_target'' \<mapsto> PBool True);
              (found, self1) = find_object_base_by_guid self target_guid
          in case found of
               Inl e \<Rightarrow> (Inl e, self1)
             | Inr target_base \<Rightarrow>
                 if target_base = 0 then (Inr (Some st1), self1)
                 else read_target self1 target_base st1)
       else (Inr (Some (st(''has_target'' \<mapsto> PBool False))), self))"

text \<open>
  The reads of the player's fields and the two percent fields, from the descriptor
  pointer on.
\<close>

definition read_player_part ::
  "MemoryReader \<Rightarrow> nat \<Rightarrow> stats \<Rightarrow> (py_error + stats option) \<times> MemoryReader" where
  "read_player_part self d st =
     (let m = pm self in
      reading (read_int m (d + UNIT_FIELD_HEALTH)) self (\<lambda>player_hp.
      reading (read_int m (d + UNIT_FIELD_MAXHEALTH)) self (\<lambda>player_max_hp.
      reading (read_int m (d + UNIT_FIELD_POWER1)) self (\<lambda>player_mp.
      reading (read_int m (d + UNIT_FIELD_MAXPOWER1)) self (\<lambda>player_max_mp.
      reading (read_int m (d + UNIT_FIELD_LEVEL)) self (\<lambda>player_level.
        let st1 = st(''player_hp'' \<mapsto> PInt (sint player_hp),
                     ''player_max_hp'' \<mapsto> PInt (sint player_max_hp),
                     ''player_mp'' \<mapsto> PInt (sint player_mp),
                     ''player_max_mp'' \<mapsto> PInt (sint player_max_mp),
                     ''player_level'' \<mapsto> PInt (sint player_level))
        in case set_percent ''player_hp_percent'' (sint player_hp) (sint player_max_hp) st1 of
             Inl e \<Rightarrow> (Inl e, self)
           | Inr st2 \<Rightarrow>
               (case set_percent ''player_mp_percent'' (sint player_mp) (sint player_max_mp) st2 of
                  Inl e \<Rightarrow> (Inl e, self)
                | Inr st3 \<Rightarrow> (Inr (Some st3), self))))))))"

text \<open>
  The player-side path of \<^verbatim>\<open>get_combat_stats\<close>, the outer \<^verbatim>\<open>try\<close> to the line before the
  read of the target GUID: \<open>Inl\<close> an exception raised in it, \<open>Inr None\<close> a
  \<^verbatim>\<open>return None\<close>, \<open>Inr (Some stats)\<close> the dict with which the method goes on.
\<close>

definition player_stats :: "MemoryReader \<Rightarrow> (py_error + stats option) \<times> MemoryReader" where
  "player_stats self0 =
     (let (obj_mgr, self) = get_object_manager_base self0; m = pm self
      in if obj_mgr = 0 then (Inr None, self)
      else
        reading (read_uchar m COMBO_POINTS_STATIC) self (\<lambda>combo.
        reading (read_ulonglong m (obj_mgr + LOCAL_GUID_OFFSET)) self (\<lambda>player_guid.
          if player_guid = 0 then (Inr None, self)
          else
            (let (found, self1) = find_object_base_by_guid self player_guid
             in case found of
                  Inl e \<Rightarrow> (Inl e, self1)
                | Inr player_base \<Rightarrow>
                    if player_base = 0 then (Inr None, self1)
                    else
                      reading (read_uint m (player_base + M_STORAGE_OFFSET)) self1
                        (\<lambda>descriptor_ptr.
                           if descriptor_ptr = 0 then (Inr None, self1)
                           else read_player_part self1 (unat descriptor_ptr)
                                  (initial_stats(''combo_points'' \<mapsto> PInt (uint combo))))))))"

text \<open>
  The body of the outer \<^verbatim>\<open>try\<close>: the player-side path, then the target: \<open>Inl\<close> an
  exception raised in it, \<open>Inr None\<close> a \<^verbatim>\<open>return None\<close>, \<open>Inr (Some stats)\<close> the
  \<^verbatim>\<open>return stats\<close>.
\<close>

definition combat_stats_body :: "MemoryReader \<Rightarrow> (py_error + stats option) \<times> MemoryReader" where
  "combat_stats_body self0 =
     (case player_stats self0 of
        (Inr (Some st), self) \<Rightarrow> read_target_part self st
      | r \<Rightarrow> r)"

text \<open>\<^verbatim>\<open>get_combat_stats\<close>: the outer \<^verbatim>\<open>except\<close> turns every exception into \<^verbatim>\<open>None\<close>.\<close>

definition get_combat_stats :: "MemoryReader \<Rightarrow> stats option \<times> MemoryReader" where
  "get_combat_stats self =
     (case combat_stats_body self of
        (Inl e, self') \<Rightarrow> (None, self')
      | (Inr r, self') \<Rightarrow> (r, self'))"

subsection \<open>Conditions\<close>

text \<open>
  The dataclasses \<^verbatim>\<open>Condition\<close>, \<^verbatim>\<open>RotationRule\<close>, \<^verbatim>\<open>CombatRotation\<close>, \<^verbatim>\<open>SlotConfig\<close> and
  \<^verbatim>\<open>AppConfig\<close>, with the fields the modelled functions read. A dict whose values are
  iterated is an association list.
\<close>

text \<open>The statistic kinds, \<^verbatim>\<open>VALID_STATS\<close>.\<close>

definition VALID_STATS :: "string list" where
  "VALID_STATS =
     [''player_hp_percent'', ''player_mp_percent'', ''target_hp_percent'', ''has_target'',
      ''target_name'', ''combo_points'', ''player_level'', ''target_level'',
      ''target_is_own_character'']"

record Condition =
  stat :: string
  operator :: string
  cond_value :: pyval

record RotationRule =
  keys_to_press :: "string list"
  conditions :: "Condition list"

record CombatRotation =
  rot_name :: string
  rules :: "RotationRule list"
  loop_interval :: pyfloat

record SlotConfig =
  character_name :: string
  assigned_rotation :: "string option"

record AppConfig =
  slots :: "(string \<times> SlotConfig) list"
  rotations :: "(string \<times> CombatRotation) list"

text \<open>
  A float that \<^verbatim>\<open>float(s)\<close> may give for a string: finite, an infinity or not a number.
  The parser of the built-in \<^verbatim>\<open>float\<close> is a parameter \<open>float_of_str\<close> of the model, any
  function, \<open>None\<close> where it raises \<^verbatim>\<open>ValueError\<close>.
\<close>

datatype pyfloatx = Fin pyfloat | PosInf | NegInf | NaN

type_synonym float_parser = "string \<Rightarrow> pyfloatx option"

text \<open>
  \<^verbatim>\<open>str.lower()\<close>. A character of a string of the model is a code point below 256. Of
  these, \<^verbatim>\<open>str.lower()\<close> folds the letters A to Z and the capital letters of Latin-1,
  \<open>0xC0\<close> to \<open>0xDE\<close> but the multiplication sign \<open>0xD7\<close>, each to the code point 32
  above it, and leaves the others as they are. A string with a code point from 256 on is
  outside the model.
\<close>

definition py_lower :: "string \<Rightarrow> string" where
  "py_lower s =
     map (\<lambda>c. let n = of_char c :: nat
              in if (65 \<le> n \<and> n \<le> 90) \<or> (192 \<le> n \<and> n \<le> 222 \<and> n \<noteq> 215)
                 then char_of (n + 32) else c) s"

text \<open>\<^verbatim>\<open>str(v)\<close>.\<close>

fun digits :: "nat \<Rightarrow> string" where
  "digits n =
     (if n < 10 then [char_of (48 + n)] else digits (n div 10) @ [char_of (48 + n mod 10)])"

definition py_str :: "pyval \<Rightarrow> string" where
  "py_str v =
     (case v of
        PNone \<Rightarrow> ''None''
      | PBool b \<Rightarrow> (if b then ''True'' else ''False'')
      | PInt n \<Rightarrow> (if n < 0 then CHR ''-'' # digits (nat (- n)) else digits (nat n))
      | PStr s \<Rightarrow> s)"

text \<open>\<^verbatim>\<open>v > 0\<close>: an order between a string or \<^verbatim>\<open>None\<close> and an int raises \<^verbatim>\<open>TypeError\<close>.\<close>

definition py_gt_zero :: "pyval \<Rightarrow> py_error + bool" where
  "py_gt_zero v =
     (case v of
        PNone \<Rightarrow> Inl TypeError
      | PBool b \<Rightarrow> Inr b
      | PInt n \<Rightarrow> Inr (0 < n)
      | PStr s \<Rightarrow> Inl TypeError)"

text \<open>\<^verbatim>\<open>a == b\<close>: a bool is the int 0 or 1; values of unlike types are not equal.\<close>

fun py_eq :: "pyval \<Rightarrow> pyval \<Rightarrow> bool" where
  "py_eq PNone PNone = True"
| "py_eq (PBool a) (PBool b) = (a = b)"
| "py_eq (PBool a) (PInt n) = ((if a then 1 else 0) = n)"
| "py_eq (PInt n) (PBool b) = (n = (if b then 1 else 0))"
| "py_eq (PInt n) (PInt k) = (n = k)"
| "py_eq (PStr s) (PStr t) = (s = t)"
| "py_eq _ _ = False"

text \<open>
  \<^verbatim>\<open>float(v)\<close>: \<^verbatim>\<open>TypeError\<close> for \<^verbatim>\<open>None\<close>, \<^verbatim>\<open>ValueError\<close> for a string that is not a
  number, \<^verbatim>\<open>OverflowError\<close> for an int beyond the largest double.
\<close>

definition py_float :: "float_parser \<Rightarrow> pyval \<Rightarrow> py_error + pyfloatx" where
  "py_float float_of_str v =
     (case v of
        PNone \<Rightarrow> Inl TypeError
      | PBool b \<Rightarrow> Inr (Fin (if b then 1 else 0))
      | PInt n \<Rightarrow>
          (if 2 ^ 1024 - 2 ^ 970 \<le> \<bar>n\<bar> then Inl OverflowError else Inr (Fin (fl (of_int n))))
      | PStr s \<Rightarrow> (case float_of_str s of None \<Rightarrow> Inl ValueError | Some x \<Rightarrow> Inr x))"

text \<open>The six entries of \<^verbatim>\<open>op_map\<close>, on a number and a float.\<close>

definition float_cmp :: "string \<Rightarrow> rat \<Rightarrow> pyfloatx \<Rightarrow> bool" where
  "float_cmp op a x =
     (case x of
        Fin b \<Rightarrow>
          (if op = ''<'' then a < b else if op = ''>'' then a > b
           else if op = ''=='' then a = b else if op = ''!='' then a \<noteq> b
           else if op = ''<='' then a \<le> b else a \<ge> b)
      | PosInf \<Rightarrow> op = ''<'' \<or> op = ''!='' \<or> op = ''<=''
      | NegInf \<Rightarrow> op = ''>'' \<or> op = ''!='' \<or> op = ''>=''
      | NaN \<Rightarrow> op = ''!='')"

text \<open>
  \<^verbatim>\<open>op_map[op](stat_value, numeric_value)\<close>: a string or \<^verbatim>\<open>None\<close> is not equal to a
  float, and an order between them raises \<^verbatim>\<open>TypeError\<close>.
\<close>

definition op_apply :: "string \<Rightarrow> pyval \<Rightarrow> pyfloatx \<Rightarrow> py_error + bool" where
  "op_apply op stat_value numeric_value =
     (case stat_value of
        PInt n \<Rightarrow> Inr (float_cmp op (of_int n) numeric_value)
      | PBool b \<Rightarrow> Inr (float_cmp op (if b then 1 else 0) numeric_value)
      | _ \<Rightarrow> (if op = ''=='' then Inr False else if op = ''!='' then Inr True
              else Inl TypeError))"

definition own_character_names :: "AppConfig \<Rightarrow> string list" where
  "own_character_names cfg =
     map (\<lambda>slot. py_lower (character_name slot))
       (filter (\<lambda>slot. character_name slot \<noteq> []) (map snd (slots cfg)))"

text \<open>
  \<^verbatim>\<open>stats.get('target_name', '').lower()\<close>: a value that is not a string has no
  \<^verbatim>\<open>lower\<close>.
\<close>

definition target_name_lower :: "stats \<Rightarrow> py_error + string" where
  "target_name_lower st =
     (case st ''target_name'' of
        None \<Rightarrow> Inr []
      | Some (PStr s) \<Rightarrow> Inr (py_lower s)
      | Some _ \<Rightarrow> Inl AttributeError)"

text \<open>\<^verbatim>\<open>_check_condition\<close>: \<open>Inl\<close> the exception it raises, \<open>Inr\<close> the bool it returns.\<close>

definition check_condition ::
  "float_parser \<Rightarrow> AppConfig \<Rightarrow> Condition \<Rightarrow> stats \<Rightarrow> py_error + bool" where
  "check_condition float_of_str cfg condition st =
     (case st (stat condition) of
        None \<Rightarrow> Inr False
      | Some PNone \<Rightarrow> Inr False
      | Some stat_value \<Rightarrow>
          if stat condition = ''has_target'' \<or> stat condition = ''target_is_own_character''
          then
            (case py_gt_zero (cond_value condition) of
               Inl e \<Rightarrow> Inl e
             | Inr expected_bool \<Rightarrow>
                 (case (if stat condition = ''has_target'' then Inr stat_value
                        else (case target_name_lower st of
                                Inl e \<Rightarrow> Inl e
                              | Inr target_name \<Rightarrow>
                                  Inr (PBool (target_name \<noteq> []
                                         \<and> target_name \<in> set (own_character_names cfg))))) of
                    Inl e \<Rightarrow> Inl e
                  | Inr is_true \<Rightarrow>
                      if operator condition = ''==''
                      then Inr (py_eq is_true (PBool expected_bool))
                      else if operator condition = ''!=''
                      then Inr (\<not> py_eq is_true (PBool expected_bool))
                      else Inr False))
          else if stat condition = ''target_name''
          then
            (let stat_str = py_lower (py_str stat_value);
                 cond_str = py_lower (py_str (cond_value condition))
             in if operator condition = ''=='' then Inr (stat_str = cond_str)
                else if operator condition = ''!='' then Inr (stat_str \<noteq> cond_str)
                else Inr False)
          else if operator condition \<notin> set [''<'', ''>'', ''=='', ''!='', ''<='', ''>='']
          then Inr False
          else
            (case py_float float_of_str (cond_value condition) of
               Inl TypeError \<Rightarrow> Inr False
             | Inl ValueError \<Rightarrow> Inr False
             | Inl e \<Rightarrow> Inl e
             | Inr numeric_value \<Rightarrow> op_apply (operator condition) stat_value numeric_value))"

subsection \<open>The controller\<close>

text \<open>
  The dataclass \<^verbatim>\<open>Macro\<close> and the fields of \<^verbatim>\<open>BoxChampController\<close> that the modelled
  methods use. A window handle is a Python int, \<^verbatim>\<open>main_hwnd\<close> may be \<^verbatim>\<open>None\<close>.
\<close>

record Macro =
  target :: string
  macro_slots :: "string list"
  rr_index :: int

record BoxChampController =
  cfg :: AppConfig
  hwnds :: "int list"
  main_hwnd :: "int option"
  proc_hwnd :: "string \<rightharpoonup> int"
  memory_readers :: "int \<rightharpoonup> MemoryReader"
  rr_state :: "string \<rightharpoonup> int"

text \<open>A call \<^verbatim>\<open>_broadcast_key_event(key, targets, event_type)\<close>.\<close>

datatype key_event = KeyEvent string "int list" string

subsection \<open>Target resolution\<close>

text \<open>\<^verbatim>\<open>[h for h in self.hwnds if h != self.main_hwnd] or self.hwnds[:1]\<close>.\<close>

definition non_main :: "BoxChampController \<Rightarrow> int list" where
  "non_main self = filter (\<lambda>h. Some h \<noteq> main_hwnd self) (hwnds self)"

definition rr_arr :: "BoxChampController \<Rightarrow> int list" where
  "rr_arr self = (if non_main self \<noteq> [] then non_main self else take 1 (hwnds self))"

text \<open>\<^verbatim>\<open>_targets_for\<close>: the targets, and the controller with its round-robin state.\<close>

definition targets_for ::
  "BoxChampController \<Rightarrow> string \<Rightarrow> string list \<Rightarrow> int list \<times> BoxChampController" where
  "targets_for self tgt named_slots =
     (if hwnds self = [] then ([], self)
      else if tgt = ''main''
      then ((case main_hwnd self of None \<Rightarrow> [] | Some h \<Rightarrow> if h \<noteq> 0 then [h] else []), self)
      else if tgt = ''all'' then (hwnds self, self)
      else if tgt = ''all_except_main'' then (non_main self, self)
      else if tgt = ''slots''
      then (concat (map (\<lambda>s. case proc_hwnd self s of
                               None \<Rightarrow> [] | Some hwnd \<Rightarrow> if hwnd \<noteq> 0 then [hwnd] else [])
                     named_slots), self)
      else if tgt = ''round_robin''
      then
        (let arr = rr_arr self
         in if arr = [] then ([], self)
            else
              (let key = ''__rr_default__'';
                   idx = (case rr_state self key of None \<Rightarrow> 0 | Some i \<Rightarrow> i) mod int (length arr)
               in ([arr ! nat idx], self\<lparr>rr_state := (rr_state self)(key \<mapsto> idx + 1)\<rparr>)))
      else (hwnds self, self))"

text \<open>
  \<^verbatim>\<open>_run_macro_body\<close>, to the loop over the steps: \<open>None\<close> where the method returns before
  the loop, else the targets the steps of the macro are sent to; with them the macro and
  the controller as the method leaves them. \<^verbatim>\<open>save_config\<close> writes the configuration
  to a file and changes nothing here.
\<close>

definition run_macro_body ::
  "BoxChampController \<Rightarrow> Macro \<Rightarrow> int list option \<times> Macro \<times> BoxChampController" where
  "run_macro_body self0 m =
     (let (targets, self) = targets_for self0 (target m) (macro_slots m)
      in if targets = [] then (None, m, self)
         else if target m = ''round_robin''
         then
           (let arr = rr_arr self
            in if arr = [] then (None, m, self)
               else
                 (let idx = rr_index m mod int (length arr)
                  in (Some [arr ! nat idx],
                      m\<lparr>rr_index := (rr_index m + 1) mod int (length arr)\<rparr>, self)))
         else (Some targets, m, self))"

text \<open>Successive invocations of one macro: the targets of each, in order.\<close>

fun invocations :: "nat \<Rightarrow> BoxChampController \<Rightarrow> Macro \<Rightarrow> int list option list" where
  "invocations 0 self m = []"
| "invocations (Suc n) self m =
     (case run_macro_body self m of (t, m', self') \<Rightarrow> t # invocations n self' m')"

subsection \<open>The rotation engine\<close>

text \<open>\<^verbatim>\<open>all(self._check_condition(cond, stats) for cond in rule.conditions)\<close>.\<close>

fun all_conditions_met ::
  "float_parser \<Rightarrow> AppConfig \<Rightarrow> Condition list \<Rightarrow> stats \<Rightarrow> py_error + bool" where
  "all_conditions_met fp c [] st = Inr True"
| "all_conditions_met fp c (cond # conds) st =
     (case check_condition fp c cond st of
        Inl e \<Rightarrow> Inl e
      | Inr b \<Rightarrow> if b then all_conditions_met fp c conds st else Inr False)"

text \<open>The key presses of a rule that fires, each key down and then up, on one window.\<close>

definition press_keys :: "int \<Rightarrow> string list \<Rightarrow> key_event list" where
  "press_keys hwnd keys =
     concat (map (\<lambda>key_to_press.
        [KeyEvent key_to_press [hwnd] ''down'', KeyEvent key_to_press [hwnd] ''up'']) keys)"

text \<open>
  The loop \<^verbatim>\<open>for rule in rotation.rules\<close>: \<open>Inl\<close> an exception of a condition, \<open>Inr None\<close>
  when the loop ends with no rule fired, \<open>Inr (Some evs)\<close> the events of the rule that
  fired, after which the loop is left.
\<close>

fun fire_first_rule ::
  "float_parser \<Rightarrow> AppConfig \<Rightarrow> int \<Rightarrow> stats \<Rightarrow> RotationRule list
     \<Rightarrow> py_error + key_event list option" where
  "fire_first_rule fp c hwnd st [] = Inr None"
| "fire_first_rule fp c hwnd st (rule # rest) =
     (case all_conditions_met fp c (conditions rule) st of
        Inl e \<Rightarrow> Inl e
      | Inr all_met \<Rightarrow>
          if all_met then Inr (Some (press_keys hwnd (keys_to_press rule)))
          else fire_first_rule fp c hwnd st rest)"

type_synonym client_rotation_map = "int \<rightharpoonup> CombatRotation \<times> pyfloat"

text \<open>
  The body of the loop over the active clients, for one client, in one tick. The clock
  is read twice: \<open>now\<close> at the test of the interval, \<open>fired_at\<close> when the fire is recorded.
  \<open>crm\<close> is \<^verbatim>\<open>client_rotation_map\<close>. The result says whether a rule fired, and with which
  events. An exception ends the thread of the engine.
\<close>

text \<open>\<^verbatim>\<open>client_rotation_map.get(hwnd, (None, 0.0))[1]\<close>.\<close>

definition last_exec_time :: "client_rotation_map \<Rightarrow> int \<Rightarrow> pyfloat" where
  "last_exec_time crm hwnd = (case crm hwnd of None \<Rightarrow> 0 | Some (r, t) \<Rightarrow> t)"

definition client_tick ::
  "float_parser \<Rightarrow> pyfloat \<Rightarrow> pyfloat \<Rightarrow> int \<Rightarrow> CombatRotation
     \<Rightarrow> BoxChampController \<times> client_rotation_map
     \<Rightarrow> py_error + key_event list option \<times> BoxChampController \<times> client_rotation_map" where
  "client_tick fp now fired_at hwnd rotation state =
     (let (self, crm) = state
      in if py_fsub now (last_exec_time crm hwnd) < loop_interval rotation
         then Inr (None, self, crm)
         else case memory_readers self hwnd of
             None \<Rightarrow> Inr (None, self, crm)
           | Some reader \<Rightarrow>
               (let (stats, reader') = get_combat_stats reader;
                    self' = self\<lparr>memory_readers := (memory_readers self)(hwnd \<mapsto> reader')\<rparr>
                in case stats of
                     None \<Rightarrow> Inr (None, self', crm)
                   | Some st \<Rightarrow>
                       (case fire_first_rule fp (cfg self') hwnd st (rules rotation) of
                          Inl e \<Rightarrow> Inl e
                        | Inr None \<Rightarrow> Inr (None, self', crm)
                        | Inr (Some evs) \<Rightarrow>
                            Inr (Some evs, self', crm(hwnd \<mapsto> (rotation, fired_at))))))"

text \<open>
  The ticks of the engine for one client with one rotation, as long as the thread lives.
  A tick is the two readings of the clock and the controller as the tick finds it (other
  threads and the remote process change it between ticks); \<^verbatim>\<open>client_rotation_map\<close>
  belongs to the thread. The result is the fires in order, each with the time \<open>now\<close> of
  its tick and the time recorded for it.
\<close>

fun engine_run ::
  "float_parser \<Rightarrow> int \<Rightarrow> CombatRotation \<Rightarrow> (pyfloat \<times> pyfloat \<times> BoxChampController) list
     \<Rightarrow> client_rotation_map \<Rightarrow> (pyfloat \<times> pyfloat) list" where
  "engine_run fp hwnd rotation [] crm = []"
| "engine_run fp hwnd rotation ((now, fired_at, self) # ticks) crm =
     (case client_tick fp now fired_at hwnd rotation (self, crm) of
        Inl e \<Rightarrow> []
      | Inr (None, self', crm') \<Rightarrow> engine_run fp hwnd rotation ticks crm'
      | Inr (Some evs, self', crm') \<Rightarrow> (now, fired_at) # engine_run fp hwnd rotation ticks crm')"

subsection \<open>What the specification says of a snapshot\<close>

text \<open>
  The percent of the specification, \<open>round(value / max * 100)\<close> when \<open>max > 0\<close> and 0
  otherwise, as arithmetic: the exact quotient and product, rounded to the nearest integer,
  a tie to the even one as \<^verbatim>\<open>round\<close> of Python does.
\<close>

definition percent :: "int \<Rightarrow> int \<Rightarrow> int" where
  "percent v mx = (if 0 < mx then round_half_even (of_int v / of_int mx * 100) else 0)"

text \<open>
  An integer \<open>n\<close> is nearest to \<open>x\<close>: no integer is closer. It is the rounding of \<open>x\<close> with
  ties to even: nearest, and even where \<open>x\<close> is half-way between two integers.
\<close>

definition nearest :: "rat \<Rightarrow> int \<Rightarrow> bool" where
  "nearest x n \<longleftrightarrow> \<bar>x - of_int n\<bar> \<le> 1 / 2"

definition nearest_even :: "rat \<Rightarrow> int \<Rightarrow> bool" where
  "nearest_even x n \<longleftrightarrow> \<bar>x - of_int n\<bar> < 1 / 2 \<or> (\<bar>x - of_int n\<bar> = 1 / 2 \<and> even n)"

text \<open>
  What the amended claim says of a percent \<open>p\<close>, computed from a value \<open>v\<close> and a
  maximum \<open>mx\<close>. With a positive maximum it is an integer nearest to the exact
  \<open>v / mx * 100\<close>, and it is the rounding, ties to even, of the product in doubles of 100
  and the quotient in doubles; otherwise it is 0.
\<close>

definition percent_spec :: "int \<Rightarrow> int \<Rightarrow> int \<Rightarrow> bool" where
  "percent_spec v mx p \<longleftrightarrow>
     (if 0 < mx
      then nearest (of_int v / of_int mx * 100) p
           \<and> nearest_even (fl (fl (of_int v / of_int mx) * 100)) p
      else p = 0)"

text \<open>
  A percent field \<open>kp\<close> of a dict against its value field \<open>kv\<close> and its maximum field
  \<open>km\<close>: the three are ints, related as above.
\<close>

definition percent_ok :: "stats \<Rightarrow> string \<Rightarrow> string \<Rightarrow> string \<Rightarrow> bool" where
  "percent_ok s kv km kp \<longleftrightarrow>
     (case (s kv, s km, s kp) of
        (Some (PInt v), Some (PInt mx), Some (PInt p)) \<Rightarrow> percent_spec v mx p
      | _ \<Rightarrow> False)"

text \<open>The fixed schema of a snapshot.\<close>

definition schema :: "string list" where
  "schema =
     [''player_hp'', ''player_max_hp'', ''player_mp'', ''player_max_mp'',
      ''player_hp_percent'', ''player_mp_percent'', ''player_level'',
      ''target_hp'', ''target_max_hp'', ''target_hp_percent'', ''target_level'',
      ''has_target'', ''target_name'', ''combo_points'']"

text \<open>What the player-side path leaves in the dict.\<close>

definition player_done :: "stats \<Rightarrow> bool" where
  "player_done st \<longleftrightarrow>
     dom st = set schema
     \<and> percent_ok st ''player_hp'' ''player_max_hp'' ''player_hp_percent''
     \<and> percent_ok st ''player_mp'' ''player_max_mp'' ''player_mp_percent''
     \<and> st ''target_hp'' = Some (PInt 0) \<and> st ''target_max_hp'' = Some (PInt 0)
     \<and> st ''target_hp_percent'' = Some (PInt 0) \<and> st ''target_level'' = Some (PInt 0)
     \<and> st ''target_name'' = Some (PStr []) \<and> (\<forall>k. st k \<noteq> Some PNone)"

text \<open>What a snapshot is, once the target part has run.\<close>

definition snapshot_ok :: "stats \<Rightarrow> bool" where
  "snapshot_ok s \<longleftrightarrow>
     dom s = set schema
     \<and> percent_ok s ''player_hp'' ''player_max_hp'' ''player_hp_percent''
     \<and> percent_ok s ''player_mp'' ''player_max_mp'' ''player_mp_percent''
     \<and> percent_ok s ''target_hp'' ''target_max_hp'' ''target_hp_percent''
     \<and> (\<forall>k. s k \<noteq> Some PNone)"

text \<open>
  The reads of the target sub-path, for the claim on its failures: the three fields of the
  target can be read; a read of the name sub-path fails.
\<close>

definition target_fields_readable :: "memory \<Rightarrow> nat \<Rightarrow> bool" where
  "target_fields_readable m d \<longleftrightarrow>
     read_int m (d + UNIT_FIELD_HEALTH) \<noteq> None \<and> read_int m (d + UNIT_FIELD_MAXHEALTH) \<noteq> None
     \<and> read_int m (d + UNIT_FIELD_LEVEL) \<noteq> None"

definition name_read_fails :: "memory \<Rightarrow> nat \<Rightarrow> bool" where
  "name_read_fails m target_base =
     (case read_uint m (target_base + UNIT_NAME_1) of
        None \<Rightarrow> True
      | Some name_ptr_1 \<Rightarrow>
          name_ptr_1 \<noteq> 0 \<and>
          (case read_uint m (unat name_ptr_1 + UNIT_NAME_2) of
             None \<Rightarrow> True
           | Some name_ptr_2 \<Rightarrow> name_ptr_2 \<noteq> 0 \<and> read_string m (unat name_ptr_2) = None))"

text \<open>
  The name of the target is not read: a read of the name sub-path fails, or one of its two
  pointers is null.
\<close>

definition name_not_read :: "memory \<Rightarrow> nat \<Rightarrow> bool" where
  "name_not_read m target_base =
     (case read_uint m (target_base + UNIT_NAME_1) of
        None \<Rightarrow> True
      | Some name_ptr_1 \<Rightarrow>
          name_ptr_1 = 0 \<or>
          (case read_uint m (unat name_ptr_1 + UNIT_NAME_2) of
             None \<Rightarrow> True
           | Some name_ptr_2 \<Rightarrow> name_ptr_2 = 0 \<or> read_string m (unat name_ptr_2) = None))"

text \<open>
  A read of the walk of the chain fails at the node \<open>a\<close>, in the search of \<open>g\<close>: the
  identifier of the node cannot be read, or it is not \<open>g\<close> and the next pointer of the node
  cannot be read.
\<close>

definition walk_read_fails :: "memory \<Rightarrow> 64 word \<Rightarrow> nat \<Rightarrow> bool" where
  "walk_read_fails m g a \<longleftrightarrow>
     read_ulonglong m (a + OBJECT_GUID_OFFSET) = None
     \<or> (read_ulonglong m (a + OBJECT_GUID_OFFSET) \<noteq> Some g
        \<and> read_uint m (a + NEXT_OBJECT_OFFSET) = None)"

text \<open>The stat fields of the target are as they were initialised.\<close>

definition target_stats_initial :: "stats \<Rightarrow> bool" where
  "target_stats_initial s \<longleftrightarrow>
     s ''target_hp'' = Some (PInt 0) \<and> s ''target_max_hp'' = Some (PInt 0)
     \<and> s ''target_hp_percent'' = Some (PInt 0) \<and> s ''target_level'' = Some (PInt 0)"

text \<open>The statistic kinds of which the amended claim on the schema speaks.\<close>

definition snapshot_kinds :: "string list" where
  "snapshot_kinds =
     [''player_hp_percent'', ''player_mp_percent'', ''target_hp_percent'', ''has_target'',
      ''target_name'', ''combo_points'', ''player_level'', ''target_level'']"


subsection \<open>Concrete states\<close>

text \<open>
  A remote process with two objects: the player (GUID 7, health 4500 of 6000) at
  \<open>0x3000\<close> and, next in the chain, its target (GUID 9, health 23 of 40, named
  \<open>thrall\<close>) at \<open>0x4000\<close>.
\<close>

definition mem_two :: memory where
  "mem_two =
     \<lparr>read_uint =
        [CUR_MGR_POINTER \<mapsto> 0x1000, 0x1000 + CUR_MGR_OFFSET \<mapsto> 0x2000,
         0x2000 + FIRST_OBJECT_OFFSET \<mapsto> 0x3000,
         0x3000 + NEXT_OBJECT_OFFSET \<mapsto> 0x4000, 0x4000 + NEXT_OBJECT_OFFSET \<mapsto> 0,
         0x3000 + M_STORAGE_OFFSET \<mapsto> 0x5000, 0x4000 + M_STORAGE_OFFSET \<mapsto> 0x6000,
         0x4000 + UNIT_NAME_1 \<mapsto> 0x7000, 0x7000 + UNIT_NAME_2 \<mapsto> 0x8000],
      read_int =
        [0x5000 + UNIT_FIELD_HEALTH \<mapsto> 4500, 0x5000 + UNIT_FIELD_MAXHEALTH \<mapsto> 6000,
         0x5000 + UNIT_FIELD_POWER1 \<mapsto> 100, 0x5000 + UNIT_FIELD_MAXPOWER1 \<mapsto> 200,
         0x5000 + UNIT_FIELD_LEVEL \<mapsto> 80,
         0x6000 + UNIT_FIELD_HEALTH \<mapsto> 23, 0x6000 + UNIT_FIELD_MAXHEALTH \<mapsto> 40,
         0x6000 + UNIT_FIELD_LEVEL \<mapsto> 79],
      read_ulonglong =
        [0x2000 + LOCAL_GUID_OFFSET \<mapsto> 7, TARGET_GUID_STATIC \<mapsto> 9,
         0x3000 + OBJECT_GUID_OFFSET \<mapsto> 7, 0x4000 + OBJECT_GUID_OFFSET \<mapsto> 9],
      read_uchar = [COMBO_POINTS_STATIC \<mapsto> 3],
      read_string = [0x8000 \<mapsto> ''thrall'']\<rparr>"

definition reader_two :: MemoryReader where
  "reader_two = \<lparr>pm = mem_two, object_manager_base = 0\<rparr>"

text \<open>The reader once it has resolved the object manager.\<close>

definition reader_two_cached :: MemoryReader where
  "reader_two_cached = \<lparr>pm = mem_two, object_manager_base = 0x2000\<rparr>"

text \<open>The same process when the descriptor pointer of the target cannot be read.\<close>

definition mem_no_descriptor :: memory where
  "mem_no_descriptor =
     mem_two\<lparr>read_uint := (read_uint mem_two)(0x4000 + M_STORAGE_OFFSET := None)\<rparr>"

text \<open>The same process when the name of the target cannot be read.\<close>

definition mem_no_name :: memory where
  "mem_no_name = mem_two\<lparr>read_string := Map.empty\<rparr>"

text \<open>
  The same process with a third object between the two, at \<open>0x4800\<close>, whose identifier
  cannot be read.
\<close>

definition mem_unreadable :: memory where
  "mem_unreadable =
     mem_two\<lparr>read_uint := (read_uint mem_two)
       (0x3000 + NEXT_OBJECT_OFFSET \<mapsto> 0x4800, 0x4800 + NEXT_OBJECT_OFFSET \<mapsto> 0x4000)\<rparr>"

text \<open>The same process when the descriptor pointer and the name pointer of the target are null.\<close>

definition mem_null_pointers :: memory where
  "mem_null_pointers =
     mem_two\<lparr>read_uint := (read_uint mem_two)
       (0x4000 + M_STORAGE_OFFSET \<mapsto> 0, 0x4000 + UNIT_NAME_1 \<mapsto> 0)\<rparr>"

text \<open>
  A corrupted chain: the next pointer of the second object leads back to the first, a
  cycle of length two.
\<close>

definition mem_cycle :: memory where
  "mem_cycle =
     mem_two\<lparr>read_uint := (read_uint mem_two)(0x4000 + NEXT_OBJECT_OFFSET \<mapsto> 0x3000)\<rparr>"

text \<open>
  The dict of \<open>reader_two\<close> after the player-side path, and its snapshot, written as
  \<^verbatim>\<open>get_combat_stats\<close> builds them.
\<close>

definition player_two :: stats where
  "player_two =
     initial_stats
       (''combo_points'' \<mapsto> PInt 3, ''player_hp'' \<mapsto> PInt 4500, ''player_max_hp'' \<mapsto> PInt 6000,
        ''player_mp'' \<mapsto> PInt 100, ''player_max_mp'' \<mapsto> PInt 200, ''player_level'' \<mapsto> PInt 80,
        ''player_hp_percent'' \<mapsto> PInt 75, ''player_mp_percent'' \<mapsto> PInt 50)"

definition stats_two :: stats where
  "stats_two =
     player_two
       (''has_target'' \<mapsto> PBool True, ''target_hp'' \<mapsto> PInt 23, ''target_max_hp'' \<mapsto> PInt 40,
        ''target_level'' \<mapsto> PInt 79, ''target_hp_percent'' \<mapsto> PInt 57,
        ''target_name'' \<mapsto> PStr ''thrall'')"

text \<open>Readers of the variants; the reader of the cycle has resolved the object manager.\<close>

definition reader_cycle :: MemoryReader where
  "reader_cycle = \<lparr>pm = mem_cycle, object_manager_base = 0x2000\<rparr>"

definition reader_no_descriptor :: MemoryReader where
  "reader_no_descriptor = \<lparr>pm = mem_no_descriptor, object_manager_base = 0\<rparr>"

definition reader_no_name :: MemoryReader where
  "reader_no_name = \<lparr>pm = mem_no_name, object_manager_base = 0\<rparr>"

definition reader_unreadable :: MemoryReader where
  "reader_unreadable = \<lparr>pm = mem_unreadable, object_manager_base = 0\<rparr>"

definition reader_null_pointers :: MemoryReader where
  "reader_null_pointers = \<lparr>pm = mem_null_pointers, object_manager_base = 0\<rparr>"

text \<open>
  What \<open>mem_two\<close> and its variants have in common: the object manager, the player as the
  first object of the chain with its fields, and the GUID of the target; and, in some of
  them, the target as the object next to the player.
\<close>

definition player_object :: "memory \<Rightarrow> bool" where
  "player_object m \<longleftrightarrow>
     read_uint m CUR_MGR_POINTER = Some 0x1000
     \<and> read_uint m (0x1000 + CUR_MGR_OFFSET) = Some 0x2000
     \<and> read_uint m (0x2000 + FIRST_OBJECT_OFFSET) = Some 0x3000
     \<and> read_ulonglong m (0x3000 + OBJECT_GUID_OFFSET) = Some 7
     \<and> read_uchar m COMBO_POINTS_STATIC = Some 3
     \<and> read_ulonglong m (0x2000 + LOCAL_GUID_OFFSET) = Some 7
     \<and> read_uint m (0x3000 + M_STORAGE_OFFSET) = Some 0x5000
     \<and> read_int m (0x5000 + UNIT_FIELD_HEALTH) = Some 4500
     \<and> read_int m (0x5000 + UNIT_FIELD_MAXHEALTH) = Some 6000
     \<and> read_int m (0x5000 + UNIT_FIELD_POWER1) = Some 100
     \<and> read_int m (0x5000 + UNIT_FIELD_MAXPOWER1) = Some 200
     \<and> read_int m (0x5000 + UNIT_FIELD_LEVEL) = Some 80
     \<and> read_ulonglong m TARGET_GUID_STATIC = Some 9"

definition two_objects :: "memory \<Rightarrow> bool" where
  "two_objects m \<longleftrightarrow>
     player_object m
     \<and> read_uint m (0x3000 + NEXT_OBJECT_OFFSET) = Some 0x4000
     \<and> read_ulonglong m (0x4000 + OBJECT_GUID_OFFSET) = Some 9"

text \<open>A configuration with one slot, whose character is \<open>Thrall\<close>.\<close>

definition cfg_thrall :: AppConfig where
  "cfg_thrall =
     \<lparr>slots = [(''Profile1'', \<lparr>character_name = ''Thrall'', assigned_rotation = None\<rparr>)],
      rotations = []\<rparr>"

text \<open>A parser of floats that takes no string: none of the conditions below has one.\<close>

definition no_float :: float_parser where
  "no_float s = None"




text \<open>
  A rule on \<open>has_target\<close> whose value is a string, as a settings file may hold it
  (the field \<^verbatim>\<open>value\<close> is \<^verbatim>\<open>Any\<close>), and a rule with no condition.
\<close>

definition cond_has_target_str :: Condition where
  "cond_has_target_str = \<lparr>stat = ''has_target'', operator = ''=='', cond_value = PStr ''yes''\<rparr>"



text \<open>The condition that the target is an own character.\<close>

definition cond_own_character :: Condition where
  "cond_own_character =
     \<lparr>stat = ''target_is_own_character'', operator = ''=='', cond_value = PInt 1\<rparr>"

text \<open>
  A controller with the main window 10 and three other windows, and a macro with the
  round-robin policy whose index starts at 0.
\<close>

definition ctrl_abc :: BoxChampController where
  "ctrl_abc =
     \<lparr>cfg = cfg_thrall, hwnds = [10, 11, 12, 13], main_hwnd = Some 10,
      proc_hwnd = Map.empty, memory_readers = Map.empty, rr_state = Map.empty\<rparr>"

definition macro_rr :: Macro where
  "macro_rr = \<lparr>target = ''round_robin'', macro_slots = [], rr_index = 0\<rparr>"

text \<open>A controller whose only window is the main window.\<close>

definition ctrl_main_only :: BoxChampController where
  "ctrl_main_only =
     \<lparr>cfg = cfg_thrall, hwnds = [10], main_hwnd = Some 10,
      proc_hwnd = Map.empty, memory_readers = Map.empty, rr_state = Map.empty\<rparr>"

section \<open>Properties\<close>

lemmas offsets =
  CUR_MGR_POINTER_def CUR_MGR_OFFSET_def FIRST_OBJECT_OFFSET_def NEXT_OBJECT_OFFSET_def
  LOCAL_GUID_OFFSET_def OBJECT_GUID_OFFSET_def M_STORAGE_OFFSET_def TARGET_GUID_STATIC_def
  COMBO_POINTS_STATIC_def UNIT_FIELD_HEALTH_def UNIT_FIELD_MAXHEALTH_def UNIT_FIELD_POWER1_def
  UNIT_FIELD_MAXPOWER1_def UNIT_FIELD_LEVEL_def UNIT_NAME_1_def UNIT_NAME_2_def


subsection \<open>Doubles: the error of a rounding and of the percent expression\<close>

lemma pow2_powi: "pow2 k = 2 powi k"
  by (simp add: pow2_def power_int_def field_simps)

lemma pow2_pos: "0 < pow2 k"
  by (simp add: pow2_powi)

lemma round_half_even_near: "\<bar>q - of_int (round_half_even q)\<bar> \<le> 1 / 2"
proof -
  define f where "f = \<lfloor>q\<rfloor>"
  have "of_int f \<le> q" "q < of_int f + 1" unfolding f_def by linarith+
  then show ?thesis
    unfolding round_half_even_def Let_def f_def[symmetric] by (auto simp: abs_if)
qed

lemma round_half_even_tie:
  "\<bar>q - of_int (round_half_even q)\<bar> = 1 / 2 \<Longrightarrow> even (round_half_even q)"
proof -
  assume t: "\<bar>q - of_int (round_half_even q)\<bar> = 1 / 2"
  define f where "f = \<lfloor>q\<rfloor>"
  have "of_int f \<le> q" "q < of_int f + 1" unfolding f_def by linarith+
  with t show ?thesis
    unfolding round_half_even_def Let_def f_def[symmetric]
    by (auto simp: abs_if split: if_splits)
qed

lemma ilog2_le:
  assumes "0 < q"
  shows "pow2 (ilog2 q) \<le> q"
proof -
  obtain a b where ab: "quotient_of q = (a, b)" by (cases "quotient_of q")
  then have q: "q = of_int a / of_int b" and b: "0 < b"
    by (simp_all add: quotient_of_div quotient_of_denom_pos)
  from assms q b have a: "0 < a" by (simp add: zero_less_divide_iff)
  let ?k = "bitlen a - bitlen b"
  have "pow2 (?k - 1) \<le> q"
  proof -
    from bitlen_bounds[OF a] have la: "(2::int) ^ nat (bitlen a - 1) \<le> a" by simp
    from bitlen_bounds[OF b] have ub: "b < (2::int) ^ nat (bitlen b)" by simp
    have na: "1 \<le> bitlen a" using a by (auto simp: bitlen_alt_def)
    have "pow2 (?k - 1) = 2 powi (bitlen a - 1) / 2 powi (bitlen b)"
      unfolding pow2_powi using power_int_diff[of "2::rat" "bitlen a - 1" "bitlen b"]
      by (simp add: algebra_simps)
    also have "\<dots> = 2 ^ nat (bitlen a - 1) / 2 ^ nat (bitlen b)"
      using na bitlen_nonneg[of b] by (simp add: power_int_def)
    also have "\<dots> \<le> of_int a / of_int b"
    proof -
      have 1: "(2::rat) ^ nat (bitlen a - 1) \<le> of_int a"
        using la by (metis of_int_le_iff of_int_numeral of_int_power)
      have 2: "(of_int b :: rat) \<le> 2 ^ nat (bitlen b)"
        using ub by (metis less_imp_le of_int_le_iff of_int_numeral of_int_power)
      from b have 3: "(0::rat) < of_int b" by simp
      from a have 4: "(0::rat) \<le> of_int a" by simp
      show ?thesis by (rule frac_le[OF 4 1 3 2])
    qed
    finally show ?thesis by (simp add: q)
  qed
  then show ?thesis by (simp add: ilog2_def Let_def ab)
qed

lemma fl_error: "\<bar>fl q - q\<bar> \<le> \<bar>q\<bar> / 2 ^ 53"
proof (cases "q = 0")
  case True
  then show ?thesis by (simp add: fl_def)
next
  case False
  let ?e = "ilog2 \<bar>q\<bar> - 52"
  let ?P = "pow2 ?e"
  have P: "0 < ?P" by (rule pow2_pos)
  have fl: "fl q = of_int (round_half_even (q / ?P)) * ?P"
    using False by (simp add: fl_def Let_def)
  have "fl q - q = (of_int (round_half_even (q / ?P)) - q / ?P) * ?P"
    using P by (simp add: fl field_simps)
  then have "\<bar>fl q - q\<bar> = \<bar>q / ?P - of_int (round_half_even (q / ?P))\<bar> * ?P"
    using P by (simp add: abs_mult abs_minus_commute)
  also have "\<dots> \<le> 1 / 2 * ?P"
    using round_half_even_near[of "q / ?P"] P by (intro mult_right_mono) simp_all
  also have "?P = pow2 (ilog2 \<bar>q\<bar>) / 2 ^ 52"
    unfolding pow2_powi using power_int_diff[of "2::rat" "ilog2 \<bar>q\<bar>" 52] by simp
  also have "1 / 2 * (pow2 (ilog2 \<bar>q\<bar>) / 2 ^ 52) \<le> 1 / 2 * (\<bar>q\<bar> / 2 ^ 52)"
    using ilog2_le[of "\<bar>q\<bar>"] False by (intro mult_left_mono divide_right_mono) simp_all
  finally show ?thesis by simp
qed

lemma double_product_error:
  fixes q :: rat
  shows "\<bar>fl (fl q * 100) - q * 100\<bar> \<le> 201 * \<bar>q\<bar> / 2 ^ 53"
proof -
  define u :: rat where "u = 1 / 2 ^ 53"
  define f where "f = fl q"
  define x where "x = fl (f * 100)"
  have u: "0 \<le> u" "100 * u \<le> 1" by (simp_all add: u_def)
  have e1: "\<bar>f - q\<bar> \<le> \<bar>q\<bar> * u"
    using fl_error[of q] by (simp add: f_def u_def)
  have "\<bar>f * 100\<bar> = \<bar>f\<bar> * 100" by (simp only: abs_mult abs_numeral)
  then have e2: "\<bar>x - f * 100\<bar> \<le> \<bar>f\<bar> * 100 * u"
    using fl_error[of "f * 100"] by (simp add: x_def u_def)
  have a: "\<bar>f\<bar> \<le> \<bar>q\<bar> + \<bar>q\<bar> * u" using e1 by linarith
  have "\<bar>f\<bar> * (100 * u) \<le> (\<bar>q\<bar> + \<bar>q\<bar> * u) * (100 * u)"
    using a u(1) by (intro mult_right_mono) simp_all
  with e2 have b: "\<bar>x - f * 100\<bar> \<le> (\<bar>q\<bar> + \<bar>q\<bar> * u) * (100 * u)"
    by (simp only: mult.assoc)
  have "f * 100 - q * 100 = (f - q) * 100" by (simp only: left_diff_distrib)
  then have "\<bar>f * 100 - q * 100\<bar> = \<bar>f - q\<bar> * 100" by (simp only: abs_mult abs_numeral)
  with e1 have c: "\<bar>f * 100 - q * 100\<bar> \<le> \<bar>q\<bar> * u * 100" by simp
  have "\<bar>x - q * 100\<bar> \<le> \<bar>x - f * 100\<bar> + \<bar>f * 100 - q * 100\<bar>" by linarith
  also have "\<dots> \<le> (\<bar>q\<bar> + \<bar>q\<bar> * u) * (100 * u) + \<bar>q\<bar> * u * 100"
    using b c by linarith
  also have "\<dots> = \<bar>q\<bar> * u * (200 + 100 * u)" by (simp only: algebra_simps)
  also have "\<dots> \<le> \<bar>q\<bar> * u * 201"
    using u by (intro mult_left_mono) simp_all
  finally show ?thesis by (simp add: x_def f_def u_def)
qed

lemma percent_nearest:
  assumes mx: "0 < mx" and v: "\<bar>v\<bar> \<le> 2 ^ 44"
  shows "\<bar>of_int v / of_int mx * 100
           - of_int (py_round (py_fmul (fl (of_int v / of_int mx)) 100))\<bar> \<le> (1 / 2 :: rat)"
proof -
  define q :: rat where "q = of_int v / of_int mx"
  define x where "x = fl (fl q * 100)"
  define p where "p = round_half_even x"
  define M :: rat where "M = of_int mx"
  define k where "k = 200 * v - 2 * mx * p"
  have M: "1 \<le> M" "0 < M" using mx by (simp_all add: M_def)
  have aq: "\<bar>q\<bar> = of_int \<bar>v\<bar> / M" using M by (simp add: q_def M_def)
  have "\<bar>x - q * 100\<bar> \<le> 201 * \<bar>q\<bar> / 2 ^ 53"
    unfolding x_def by (rule double_product_error)
  then have "\<bar>x - q * 100\<bar> * (2 * M) \<le> 201 * \<bar>q\<bar> / 2 ^ 53 * (2 * M)"
    using M by (intro mult_right_mono) simp_all
  also have "\<dots> = 402 * of_int \<bar>v\<bar> / 2 ^ 53" using M by (simp add: aq)
  also have "\<dots> \<le> 402 * 2 ^ 44 / 2 ^ 53"
  proof -
    from v have "(of_int \<bar>v\<bar> :: rat) \<le> of_int (2 ^ 44)" by (subst of_int_le_iff)
    then show ?thesis by simp
  qed
  also have "\<dots> < 1" by simp
  finally have d: "\<bar>x - q * 100\<bar> * (2 * M) < 1" .
  have "\<bar>x - of_int p\<bar> \<le> 1 / 2" unfolding p_def by (rule round_half_even_near)
  then have n: "\<bar>x - of_int p\<bar> * (2 * M) \<le> M"
    using M mult_right_mono[of "\<bar>x - of_int p\<bar>" "1 / 2" "2 * M"] by simp
  have "\<bar>q * 100 - of_int p\<bar> \<le> \<bar>x - q * 100\<bar> + \<bar>x - of_int p\<bar>" by linarith
  then have "\<bar>q * 100 - of_int p\<bar> * (2 * M)
      \<le> (\<bar>x - q * 100\<bar> + \<bar>x - of_int p\<bar>) * (2 * M)"
    using M by (intro mult_right_mono) simp_all
  with d n have u: "\<bar>q * 100 - of_int p\<bar> * (2 * M) < M + 1"
    by (simp add: distrib_right)
  have "(q * 100 - of_int p) * (2 * M) = of_int k"
    using M by (simp add: q_def M_def k_def field_simps)
  then have "\<bar>(q * 100 - of_int p) * (2 * M)\<bar> = \<bar>of_int k\<bar>" by (rule arg_cong)
  moreover have "\<bar>2 * M\<bar> = 2 * M" using M by simp
  ultimately have "\<bar>q * 100 - of_int p\<bar> * (2 * M) = of_int \<bar>k\<bar>"
    by (simp only: abs_mult of_int_abs)
  with u have "(of_int \<bar>k\<bar> :: rat) < of_int (mx + 1)" by (simp add: M_def)
  then have "\<bar>k\<bar> < mx + 1" by (subst (asm) of_int_less_iff)
  then have "(of_int \<bar>k\<bar> :: rat) \<le> of_int mx" by (subst of_int_le_iff) simp
  then have "\<bar>q * 100 - of_int p\<bar> * (2 * M) \<le> M"
    using \<open>\<bar>q * 100 - of_int p\<bar> * (2 * M) = of_int \<bar>k\<bar>\<close> by (simp add: M_def)
  then have "\<bar>q * 100 - of_int p\<bar> \<le> 1 / 2"
    using M by (simp add: field_simps)
  then show ?thesis
    by (simp add: q_def x_def p_def py_round_def py_fmul_def)
qed

lemma percent_value_ok:
  fixes hp mx :: "32 word"
  assumes "0 < sint mx"
  shows "percent_spec (sint hp) (sint mx) (percent_value (sint hp) (sint mx))"
proof -
  let ?x = "fl (fl (of_int (sint hp) / of_int (sint mx)) * 100)"
  have "- (2 ^ 31) \<le> sint hp" "sint hp < 2 ^ 31"
    using sint_ge[of hp] sint_lt[of hp] by simp_all
  then have "\<bar>sint hp\<bar> \<le> 2 ^ 44" by simp
  from percent_nearest[OF assms this]
  have "nearest (of_int (sint hp) / of_int (sint mx) * 100) (percent_value (sint hp) (sint mx))"
    unfolding nearest_def percent_value_def .
  moreover have "nearest_even ?x (percent_value (sint hp) (sint mx))"
    using round_half_even_near[of ?x] round_half_even_tie[of ?x]
    unfolding nearest_even_def percent_value_def py_round_def py_fmul_def by linarith
  ultimately show ?thesis using assms unfolding percent_spec_def by (simp only: if_True simp_thms)
qed

lemma percent_spec_zero: "\<not> 0 < mx \<Longrightarrow> percent_spec v mx 0"
  by (simp add: percent_spec_def)

subsection \<open>Reads and the cache of the reader\<close>

lemma set_percent_eq:
  "set_percent k v mx st = Inr (if 0 < mx then st(k \<mapsto> PInt (percent_value v mx)) else st)"
  by (simp add: set_percent_def percent_expr_def percent_value_def py_truediv_def)

lemma reading_Inr:
  "reading r self k = (Inr x, self') \<Longrightarrow> \<exists>v. r = Some v \<and> k v = (Inr x, self')"
  by (cases r) (simp_all add: reading_def)

lemma reading_Inl:
  assumes "reading r self k = (Inl e, self')"
    and "\<And>v. k v = (Inl e, self') \<Longrightarrow> e = MemoryReadError"
  shows "e = MemoryReadError"
  using assms by (cases r) (simp_all add: reading_def)

lemma get_object_manager_base_pm: "pm (snd (get_object_manager_base self)) = pm self"
  by (simp add: get_object_manager_base_def split: option.splits)

lemma get_object_manager_base_cache:
  "fst (get_object_manager_base self) \<noteq> 0 \<Longrightarrow>
     object_manager_base (snd (get_object_manager_base self)) = fst (get_object_manager_base self)"
  by (simp add: get_object_manager_base_def split: option.splits if_splits)

lemma get_object_manager_base_cached:
  "object_manager_base self \<noteq> 0 \<Longrightarrow> get_object_manager_base self = (object_manager_base self, self)"
  by (simp add: get_object_manager_base_def)

lemma find_object_base_by_guid_cached:
  "object_manager_base self \<noteq> 0 \<Longrightarrow> snd (find_object_base_by_guid self g) = self"
  by (simp add: find_object_base_by_guid_def get_object_manager_base_cached split: option.splits)

lemma find_object_base_by_guid_error:
  "find_object_base_by_guid self g = (Inl e, self') \<Longrightarrow> e = MemoryReadError"
  by (auto simp: find_object_base_by_guid_def split: option.splits prod.splits if_splits)

subsection \<open>The parts of a snapshot\<close>

lemma read_target_name_other:
  "k \<noteq> ''target_name'' \<Longrightarrow> read_target_name m tb st k = st k"
  by (simp add: read_target_name_def split: option.splits)

lemma read_target_name_name:
  "\<exists>n. st ''target_name'' = Some (PStr n) \<Longrightarrow>
     \<exists>n. read_target_name m tb st ''target_name'' = Some (PStr n)"
  by (simp add: read_target_name_def split: option.splits)

lemma read_target_cases:
  assumes "read_target self tb st = (Inr (Some s), self')"
  obtains (null) "read_uint (pm self) (tb + M_STORAGE_OFFSET) = Some 0"
      "s = read_target_name (pm self) tb st"
  | (desc) d hp mx lv where "read_uint (pm self) (tb + M_STORAGE_OFFSET) = Some d" "d \<noteq> 0"
      "read_int (pm self) (unat d + UNIT_FIELD_HEALTH) = Some hp"
      "read_int (pm self) (unat d + UNIT_FIELD_MAXHEALTH) = Some mx"
      "read_int (pm self) (unat d + UNIT_FIELD_LEVEL) = Some lv"
      "s = read_target_name (pm self) tb
             (if 0 < sint mx
              then st(''target_hp'' \<mapsto> PInt (sint hp), ''target_max_hp'' \<mapsto> PInt (sint mx),
                      ''target_level'' \<mapsto> PInt (sint lv),
                      ''target_hp_percent'' \<mapsto> PInt (percent_value (sint hp) (sint mx)))
              else st(''target_hp'' \<mapsto> PInt (sint hp), ''target_max_hp'' \<mapsto> PInt (sint mx),
                      ''target_level'' \<mapsto> PInt (sint lv)))"
  using assms unfolding read_target_def Let_def set_percent_eq
  by (auto dest!: reading_Inr split: if_splits intro: null desc)

lemma read_target_error:
  "read_target self tb st = (Inl e, self') \<Longrightarrow> e = MemoryReadError"
  unfolding read_target_def Let_def set_percent_eq
  by (auto elim!: reading_Inl split: if_splits)

lemma read_target_part_cases:
  assumes "read_target_part self st = (Inr (Some s), self')"
  obtains (no_target) "read_ulonglong (pm self) TARGET_GUID_STATIC = Some 0"
      "s = st(''has_target'' \<mapsto> PBool False)"
  | (not_found) g where "read_ulonglong (pm self) TARGET_GUID_STATIC = Some g" "g \<noteq> 0"
      "fst (find_object_base_by_guid self g) = Inr 0"
      "s = st(''has_target'' \<mapsto> PBool True)"
  | (found) g tb where "read_ulonglong (pm self) TARGET_GUID_STATIC = Some g" "g \<noteq> 0"
      "fst (find_object_base_by_guid self g) = Inr tb" "tb \<noteq> 0"
      "read_target (snd (find_object_base_by_guid self g)) tb (st(''has_target'' \<mapsto> PBool True))
         = (Inr (Some s), self')"
  using assms unfolding read_target_part_def Let_def
  by (auto dest!: reading_Inr split: if_splits prod.splits sum.splits simp: word_greater_zero_iff
      intro: no_target not_found found)

lemma read_target_part_error:
  "read_target_part self st = (Inl e, self') \<Longrightarrow> e = MemoryReadError"
  unfolding read_target_part_def Let_def
  by (auto elim!: reading_Inl split: if_splits prod.splits sum.splits
      dest!: read_target_error find_object_base_by_guid_error)

lemma read_player_part_cases:
  assumes "read_player_part self d st = (Inr (Some s), self')"
  obtains hp mx mp mmx lv where
      "read_int (pm self) (d + UNIT_FIELD_HEALTH) = Some hp"
      "read_int (pm self) (d + UNIT_FIELD_MAXHEALTH) = Some mx"
      "read_int (pm self) (d + UNIT_FIELD_POWER1) = Some mp"
      "read_int (pm self) (d + UNIT_FIELD_MAXPOWER1) = Some mmx"
      "read_int (pm self) (d + UNIT_FIELD_LEVEL) = Some lv"
      "s = (let st1 = st(''player_hp'' \<mapsto> PInt (sint hp), ''player_max_hp'' \<mapsto> PInt (sint mx),
                       ''player_mp'' \<mapsto> PInt (sint mp), ''player_max_mp'' \<mapsto> PInt (sint mmx),
                       ''player_level'' \<mapsto> PInt (sint lv));
              st2 = (if 0 < sint mx
                     then st1(''player_hp_percent'' \<mapsto> PInt (percent_value (sint hp) (sint mx)))
                     else st1)
          in if 0 < sint mmx
             then st2(''player_mp_percent'' \<mapsto> PInt (percent_value (sint mp) (sint mmx)))
             else st2)"
      "self' = self"
  using assms unfolding read_player_part_def Let_def set_percent_eq
  by (auto dest!: reading_Inr simp del: fun_upd_apply)

lemma read_player_part_error:
  "read_player_part self d st = (Inl e, self') \<Longrightarrow> e = MemoryReadError"
  unfolding read_player_part_def Let_def set_percent_eq
  by (auto elim!: reading_Inl simp del: fun_upd_apply)

lemma player_stats_cases:
  assumes "player_stats self0 = (Inr (Some s), self')"
  obtains combo g pb d where
      "fst (get_object_manager_base self0) \<noteq> 0"
      "read_uchar (pm self0) COMBO_POINTS_STATIC = Some combo"
      "read_ulonglong (pm self0) (fst (get_object_manager_base self0) + LOCAL_GUID_OFFSET) = Some g"
      "g \<noteq> 0"
      "find_object_base_by_guid (snd (get_object_manager_base self0)) g
         = (Inr pb, snd (get_object_manager_base self0))" "pb \<noteq> 0"
      "read_uint (pm self0) (pb + M_STORAGE_OFFSET) = Some d" "d \<noteq> 0"
      "read_player_part (snd (get_object_manager_base self0)) (unat d)
          (initial_stats(''combo_points'' \<mapsto> PInt (uint combo))) = (Inr (Some s), self')"
proof -
  let ?s1 = "snd (get_object_manager_base self0)"
  have c: "s' = ?s1"
    if "fst (get_object_manager_base self0) \<noteq> 0" "find_object_base_by_guid ?s1 g = (r, s')"
    for g r s'
    using that get_object_manager_base_cache[of self0]
      find_object_base_by_guid_cached[of ?s1 g] by simp
  from assms obtain combo g pb d s1 where
      "fst (get_object_manager_base self0) \<noteq> 0"
      "read_uchar (pm self0) COMBO_POINTS_STATIC = Some combo"
      "read_ulonglong (pm self0) (fst (get_object_manager_base self0) + LOCAL_GUID_OFFSET) = Some g"
      "g \<noteq> 0"
      "find_object_base_by_guid ?s1 g = (Inr pb, s1)" "pb \<noteq> 0"
      "read_uint (pm self0) (pb + M_STORAGE_OFFSET) = Some d" "d \<noteq> 0"
      "read_player_part s1 (unat d)
          (initial_stats(''combo_points'' \<mapsto> PInt (uint combo))) = (Inr (Some s), self')"
    using get_object_manager_base_pm[of self0] unfolding player_stats_def Let_def
    by (auto dest!: reading_Inr split: if_splits prod.splits sum.splits simp del: fun_upd_apply)
  moreover from this have "s1 = ?s1" by (intro c)
  ultimately show ?thesis by (intro that) simp_all
qed

lemma player_stats_error:
  "player_stats self0 = (Inl e, self') \<Longrightarrow> e = MemoryReadError"
  unfolding player_stats_def Let_def
  by (auto elim!: reading_Inl split: if_splits prod.splits sum.splits
      dest!: read_player_part_error find_object_base_by_guid_error)

lemma combat_stats_body_Some:
  "combat_stats_body self0 = (Inr (Some s), self') \<longleftrightarrow>
     (\<exists>st self1. player_stats self0 = (Inr (Some st), self1)
        \<and> read_target_part self1 st = (Inr (Some s), self'))"
  by (auto simp: combat_stats_body_def split: prod.splits sum.splits option.splits)

lemma combat_stats_body_error:
  "combat_stats_body self0 = (Inl e, self') \<Longrightarrow> e = MemoryReadError"
  by (auto simp: combat_stats_body_def split: prod.splits sum.splits option.splits
      dest!: player_stats_error read_target_part_error)

lemma get_combat_stats_Some:
  "get_combat_stats self0 = (Some s, self') \<longleftrightarrow> combat_stats_body self0 = (Inr (Some s), self')"
  by (auto simp: get_combat_stats_def split: prod.splits sum.splits)

lemma upd_dom: "k \<in> dom st \<Longrightarrow> dom (st(k \<mapsto> v)) = dom st"
  by (simp add: insert_absorb)

lemma dom_initial_stats: "dom initial_stats = set schema"
  by (simp add: initial_stats_def schema_def insert_commute)

lemma read_target_name_dom:
  "''target_name'' \<in> dom st \<Longrightarrow> dom (read_target_name m tb st) = dom st"
  unfolding read_target_name_def
  by (simp only: upd_dom split: option.splits if_splits) simp

lemma initial_stats_lookup:
  "initial_stats ''player_hp'' = Some (PInt 0)" "initial_stats ''player_max_hp'' = Some (PInt 0)"
  "initial_stats ''player_mp'' = Some (PInt 0)" "initial_stats ''player_max_mp'' = Some (PInt 0)"
  "initial_stats ''player_hp_percent'' = Some (PInt 0)"
  "initial_stats ''player_mp_percent'' = Some (PInt 0)"
  "initial_stats ''player_level'' = Some (PInt 0)"
  "initial_stats ''target_hp'' = Some (PInt 0)" "initial_stats ''target_max_hp'' = Some (PInt 0)"
  "initial_stats ''target_hp_percent'' = Some (PInt 0)"
  "initial_stats ''target_level'' = Some (PInt 0)"
  "initial_stats ''has_target'' = Some (PBool False)"
  "initial_stats ''target_name'' = Some (PStr [])"
  "initial_stats ''combo_points'' = Some (PInt 0)"
  by (simp_all add: initial_stats_def)

lemma initial_stats_none: "initial_stats k \<noteq> Some PNone"
  by (simp add: initial_stats_def)

lemma read_player_part_done:
  assumes "read_player_part self d (initial_stats(''combo_points'' \<mapsto> PInt c))
    = (Inr (Some s), self')"
  shows "player_done s"
  using assms
proof (cases rule: read_player_part_cases)
  case (1 hp mx mp mmx lv)
  have k: "''combo_points'' \<in> dom initial_stats" "''player_hp'' \<in> dom initial_stats"
    "''player_max_hp'' \<in> dom initial_stats" "''player_mp'' \<in> dom initial_stats"
    "''player_max_mp'' \<in> dom initial_stats" "''player_level'' \<in> dom initial_stats"
    "''player_hp_percent'' \<in> dom initial_stats" "''player_mp_percent'' \<in> dom initial_stats"
    by (simp_all add: domIff initial_stats_lookup)
  have "dom s = dom initial_stats"
    unfolding 1(6) Let_def using k
    by (simp only: upd_dom if_distrib[where f = dom] if_cancel)
  moreover have "percent_ok s ''player_hp'' ''player_max_hp'' ''player_hp_percent''"
    "percent_ok s ''player_mp'' ''player_max_mp'' ''player_mp_percent''"
    unfolding 1(6) Let_def
    by (simp_all add: percent_ok_def initial_stats_lookup percent_value_ok percent_spec_zero)
  moreover have "s ''target_hp'' = Some (PInt 0)" "s ''target_max_hp'' = Some (PInt 0)"
    "s ''target_hp_percent'' = Some (PInt 0)" "s ''target_level'' = Some (PInt 0)"
    "s ''target_name'' = Some (PStr [])"
    unfolding 1(6) Let_def by (simp_all add: initial_stats_lookup)
  moreover have "s k \<noteq> Some PNone" for k
    unfolding 1(6) Let_def by (simp add: initial_stats_none)
  ultimately show ?thesis
    by (simp add: player_done_def dom_initial_stats)
qed

lemma player_stats_done:
  assumes "player_stats self0 = (Inr (Some st), self1)"
  shows "player_done st \<and> pm self1 = pm self0 \<and> object_manager_base self1 \<noteq> 0"
  using assms
proof (cases rule: player_stats_cases)
  case (1 combo g pb d)
  from 1(9) have "player_done st" by (rule read_player_part_done)
  moreover from 1(9) have "self1 = snd (get_object_manager_base self0)"
    by (cases rule: read_player_part_cases)
  with 1(1) get_object_manager_base_cache[of self0] get_object_manager_base_pm[of self0]
  have "pm self1 = pm self0" "object_manager_base self1 \<noteq> 0" by simp_all
  ultimately show ?thesis by simp
qed


lemma percent_ok_cong:
  "s kv = st kv \<Longrightarrow> s km = st km \<Longrightarrow> s kp = st kp \<Longrightarrow> percent_ok s kv km kp = percent_ok st kv km kp"
  by (simp add: percent_ok_def split: option.splits pyval.splits)

lemma read_target_name_none:
  "\<forall>k. st k \<noteq> Some PNone \<Longrightarrow> read_target_name m tb st k \<noteq> Some PNone"
  by (simp add: read_target_name_def split: option.splits)

lemma read_target_ok:
  assumes r: "read_target self tb st = (Inr (Some s), self')" and p: "snapshot_ok st"
    and z: "st ''target_hp'' = Some (PInt 0)" "st ''target_max_hp'' = Some (PInt 0)"
      "st ''target_hp_percent'' = Some (PInt 0)"
  shows "snapshot_ok s"
proof -
  have k: "''target_hp'' \<in> dom st" "''target_max_hp'' \<in> dom st" "''target_level'' \<in> dom st"
      "''target_hp_percent'' \<in> dom st" "''target_name'' \<in> dom st"
    using p by (simp_all add: snapshot_ok_def schema_def)
  have nn: "\<forall>k. st k \<noteq> Some PNone" using p by (simp add: snapshot_ok_def)
  from r show ?thesis
  proof (cases rule: read_target_cases)
    case null
    have "dom s = dom st" unfolding null(2) using k(5) by (rule read_target_name_dom)
    moreover have "percent_ok s ''target_hp'' ''target_max_hp'' ''target_hp_percent''"
      unfolding null(2) using z
      by (simp add: percent_ok_def read_target_name_other percent_spec_zero)
    moreover have "percent_ok s ''player_hp'' ''player_max_hp'' ''player_hp_percent''
        = percent_ok st ''player_hp'' ''player_max_hp'' ''player_hp_percent''"
      "percent_ok s ''player_mp'' ''player_max_mp'' ''player_mp_percent''
        = percent_ok st ''player_mp'' ''player_max_mp'' ''player_mp_percent''"
      unfolding null(2) by (rule percent_ok_cong; simp add: read_target_name_other)+
    moreover have "s k \<noteq> Some PNone" for k
      unfolding null(2) using nn by (rule read_target_name_none)
    ultimately show ?thesis using p by (simp add: snapshot_ok_def)
  next
    case (desc d hp mx lv)
    let ?st = "if 0 < sint mx
              then st(''target_hp'' \<mapsto> PInt (sint hp), ''target_max_hp'' \<mapsto> PInt (sint mx),
                      ''target_level'' \<mapsto> PInt (sint lv),
                      ''target_hp_percent'' \<mapsto> PInt (percent_value (sint hp) (sint mx)))
              else st(''target_hp'' \<mapsto> PInt (sint hp), ''target_max_hp'' \<mapsto> PInt (sint mx),
                      ''target_level'' \<mapsto> PInt (sint lv))"
    have d: "dom ?st = dom st"
      using k(1-4) by (simp only: upd_dom if_distrib[where f = dom] if_cancel)
    then have "dom s = dom st"
      unfolding desc(6) using k(5) by (simp only: read_target_name_dom)
    moreover have "percent_ok s ''target_hp'' ''target_max_hp'' ''target_hp_percent''"
      unfolding desc(6) using z(3)
      by (simp add: percent_ok_def read_target_name_other percent_value_ok percent_spec_zero)
    moreover have "percent_ok s ''player_hp'' ''player_max_hp'' ''player_hp_percent''
        = percent_ok st ''player_hp'' ''player_max_hp'' ''player_hp_percent''"
      "percent_ok s ''player_mp'' ''player_max_mp'' ''player_mp_percent''
        = percent_ok st ''player_mp'' ''player_max_mp'' ''player_mp_percent''"
      unfolding desc(6) by (rule percent_ok_cong; simp add: read_target_name_other)+
    moreover have "s k \<noteq> Some PNone" for k
      unfolding desc(6) using nn by (intro read_target_name_none) simp
    ultimately show ?thesis using p by (simp add: snapshot_ok_def)
  qed
qed

lemma player_done_ok: "player_done st \<Longrightarrow> snapshot_ok st"
  by (simp add: player_done_def snapshot_ok_def percent_ok_def percent_spec_zero)

lemma has_target_ok:
  assumes "snapshot_ok st"
  shows "snapshot_ok (st(''has_target'' \<mapsto> PBool b))"
proof -
  have "''has_target'' \<in> dom st" using assms by (simp add: snapshot_ok_def schema_def)
  then have "dom (st(''has_target'' \<mapsto> PBool b)) = dom st" by (rule upd_dom)
  moreover have "percent_ok (st(''has_target'' \<mapsto> PBool b)) kv km kp = percent_ok st kv km kp"
    if "kv \<noteq> ''has_target''" "km \<noteq> ''has_target''" "kp \<noteq> ''has_target''" for kv km kp
    using that by (intro percent_ok_cong) simp_all
  ultimately show ?thesis using assms by (simp add: snapshot_ok_def)
qed

lemma read_target_part_ok:
  assumes r: "read_target_part self st = (Inr (Some s), self')" and p: "player_done st"
  shows "snapshot_ok s"
  using r
proof (cases rule: read_target_part_cases)
  case no_target
  then show ?thesis using has_target_ok[OF player_done_ok[OF p]] by simp
next
  case (not_found g)
  then show ?thesis using has_target_ok[OF player_done_ok[OF p]] by simp
next
  case (found g tb)
  from found(5) show ?thesis
    by (rule read_target_ok) (use p in \<open>simp_all add: has_target_ok player_done_ok player_done_def\<close>)
qed

lemma get_combat_stats_ok:
  assumes "get_combat_stats self0 = (Some s, self')"
  shows "snapshot_ok s"
proof -
  from assms obtain st self1 where "player_stats self0 = (Inr (Some st), self1)"
    "read_target_part self1 st = (Inr (Some s), self')"
    by (auto simp: get_combat_stats_Some combat_stats_body_Some)
  then show ?thesis using player_stats_done[of self0 st self1] read_target_part_ok by blast
qed

lemma find_loop_numeral:
  "find_loop m g (numeral k) cur =
     (if cur = 0 then (0, 1)
      else case read_ulonglong m (cur + OBJECT_GUID_OFFSET) of
          None \<Rightarrow> (0, 1)
        | Some obj_guid \<Rightarrow>
            if obj_guid = g then (cur, 1)
            else (case read_uint m (cur + NEXT_OBJECT_OFFSET) of
                None \<Rightarrow> (0, 1)
              | Some nxt \<Rightarrow>
                  (let r = find_loop m g (pred_numeral k) (unat nxt) in (fst r, Suc (snd r)))))"
  by (simp add: numeral_eq_Suc)

lemma percent_examples:
  "percent_expr 4500 6000 = Inr 75" "percent_expr 100 200 = Inr 50" "percent_expr 23 40 = Inr 57"
  by code_simp+

lemma om_two: "get_object_manager_base reader_two = (0x2000, reader_two_cached)"
  by (simp add: get_object_manager_base_def reader_two_def reader_two_cached_def mem_two_def offsets)

lemma om_two_cached: "get_object_manager_base reader_two_cached = (0x2000, reader_two_cached)"
  by (simp add: get_object_manager_base_def reader_two_cached_def)

lemma pm_two: "pm reader_two_cached = mem_two"
  by (simp add: reader_two_cached_def)

lemma find_loop_two:
  "find_loop mem_two 7 4096 0x3000 = (0x3000, 1)" "find_loop mem_two 9 4096 0x3000 = (0x4000, 2)"
  by (simp_all add: find_loop_numeral mem_two_def offsets)

lemma first_two: "read_uint mem_two (0x2000 + FIRST_OBJECT_OFFSET) = Some 0x3000"
  by (simp add: mem_two_def offsets)

lemma find_two:
  "find_object_base_by_guid reader_two_cached 7 = (Inr 0x3000, reader_two_cached)"
  "find_object_base_by_guid reader_two_cached 9 = (Inr 0x4000, reader_two_cached)"
  by (simp_all add: find_object_base_by_guid_def om_two_cached pm_two first_two find_loop_two)

lemma player_reads_two:
  "read_uchar mem_two COMBO_POINTS_STATIC = Some 3"
  "read_ulonglong mem_two (0x2000 + LOCAL_GUID_OFFSET) = Some 7"
  "read_uint mem_two (0x3000 + M_STORAGE_OFFSET) = Some 0x5000"
  "read_int mem_two (0x5000 + UNIT_FIELD_HEALTH) = Some 4500"
  "read_int mem_two (0x5000 + UNIT_FIELD_MAXHEALTH) = Some 6000"
  "read_int mem_two (0x5000 + UNIT_FIELD_POWER1) = Some 100"
  "read_int mem_two (0x5000 + UNIT_FIELD_MAXPOWER1) = Some 200"
  "read_int mem_two (0x5000 + UNIT_FIELD_LEVEL) = Some 80"
  by (simp_all add: mem_two_def offsets)

lemma player_stats_two: "player_stats reader_two = (Inr (Some player_two), reader_two_cached)"
  by (simp add: player_stats_def om_two pm_two find_two reading_def read_player_part_def
        player_reads_two set_percent_def percent_examples player_two_def)

lemma target_reads_two:
  "read_ulonglong mem_two TARGET_GUID_STATIC = Some 9"
  "read_uint mem_two (0x4000 + M_STORAGE_OFFSET) = Some 0x6000"
  "read_int mem_two (0x6000 + UNIT_FIELD_HEALTH) = Some 23"
  "read_int mem_two (0x6000 + UNIT_FIELD_MAXHEALTH) = Some 40"
  "read_int mem_two (0x6000 + UNIT_FIELD_LEVEL) = Some 79"
  "read_uint mem_two (0x4000 + UNIT_NAME_1) = Some 0x7000"
  "read_uint mem_two (0x7000 + UNIT_NAME_2) = Some 0x8000"
  "read_string mem_two 0x8000 = Some ''thrall''"
  by (simp_all add: mem_two_def offsets)

lemma get_combat_stats_two: "get_combat_stats reader_two = (Some stats_two, reader_two_cached)"
  by (simp add: get_combat_stats_def combat_stats_body_def player_stats_two read_target_part_def
        read_target_def read_target_name_def pm_two find_two reading_def
        target_reads_two set_percent_def percent_examples stats_two_def)

lemma get_combat_stats_parts:
  assumes "get_combat_stats self0 = (Some s, self')"
  obtains st self1 where "player_stats self0 = (Inr (Some st), self1)"
    "read_target_part self1 st = (Inr (Some s), self')" "player_done st" "pm self1 = pm self0"
proof -
  from assms obtain st self1 where a: "player_stats self0 = (Inr (Some st), self1)"
    "read_target_part self1 st = (Inr (Some s), self')"
    by (auto simp: get_combat_stats_Some combat_stats_body_Some)
  from player_stats_done[OF a(1)] have "player_done st" "pm self1 = pm self0" by simp_all
  with a show ?thesis by (rule that)
qed

text \<open>
  Claim C1, amended. In every snapshot that \<^verbatim>\<open>get_combat_stats\<close> returns, each percent
  field (health and power of the player, health of the target) is, when the maximum is
  positive, \<^verbatim>\<open>round((value / max) * 100)\<close> as Python computes it in doubles: the rounding,
  ties to even, of the product in doubles, and an integer nearest to the exact
  \<open>value / max * 100\<close>; it is 0 when the maximum is not positive. Computing a snapshot
  never divides by zero, and health 4500 of 6000 gives 75.
\<close>

theorem snapshot_percent:
  "(get_combat_stats self = (Some s, self') \<longrightarrow>
      percent_ok s ''player_hp'' ''player_max_hp'' ''player_hp_percent''
      \<and> percent_ok s ''player_mp'' ''player_max_mp'' ''player_mp_percent''
      \<and> percent_ok s ''target_hp'' ''target_max_hp'' ''target_hp_percent'')
   \<and> fst (combat_stats_body self) \<noteq> Inl ZeroDivisionError
   \<and> percent_expr 4500 6000 = Inr 75 \<and> percent 4500 6000 = 75"
proof (intro conjI impI)
  assume "get_combat_stats self = (Some s, self')"
  then have "snapshot_ok s" by (rule get_combat_stats_ok)
  then show "percent_ok s ''player_hp'' ''player_max_hp'' ''player_hp_percent''"
    "percent_ok s ''player_mp'' ''player_max_mp'' ''player_mp_percent''"
    "percent_ok s ''target_hp'' ''target_max_hp'' ''target_hp_percent''"
    by (simp_all add: snapshot_ok_def)
next
  show "fst (combat_stats_body self) \<noteq> Inl ZeroDivisionError"
    using combat_stats_body_error[of self ZeroDivisionError "snd (combat_stats_body self)"]
    by (cases "combat_stats_body self") auto
next
  show "percent_expr 4500 6000 = Inr 75" by (rule percent_examples)
next
  show "percent 4500 6000 = 75" by code_simp
qed

text \<open>
  The reader \<open>reader_two\<close>, whose player has health 4500 of 6000 and whose target has
  health 23 of 40: the fields are 75 and 57, integers nearest to 75 and to 57.5.
\<close>

theorem snapshot_percent_witness:
  "get_combat_stats reader_two = (Some stats_two, reader_two_cached)
   \<and> stats_two ''player_hp'' = Some (PInt 4500) \<and> stats_two ''player_max_hp'' = Some (PInt 6000)
   \<and> stats_two ''player_hp_percent'' = Some (PInt 75)
   \<and> percent_spec 4500 6000 75
   \<and> stats_two ''target_hp'' = Some (PInt 23) \<and> stats_two ''target_max_hp'' = Some (PInt 40)
   \<and> stats_two ''target_hp_percent'' = Some (PInt 57)
   \<and> percent_spec 23 40 57"
  using snapshot_percent[of reader_two stats_two reader_two_cached] get_combat_stats_two
  by (simp add: stats_two_def player_two_def percent_ok_def)

text \<open>
  Claim C1 as it is written fails: the target of \<open>reader_two\<close> has health 23 of 40, and
  \<open>round(23 / 40 * 100)\<close> is 58, the rounding of 57.5, while the field of the snapshot is
  57: the quotient in doubles is below 0.575 and the product below 57.5.
\<close>

theorem snapshot_percent_counterexample:
  "get_combat_stats reader_two = (Some stats_two, reader_two_cached)
   \<and> stats_two ''target_hp'' = Some (PInt 23) \<and> stats_two ''target_max_hp'' = Some (PInt 40)
   \<and> stats_two ''target_hp_percent'' = Some (PInt 57)
   \<and> percent 23 40 = 58"
proof -
  have "percent 23 40 = 58" by code_simp
  then show ?thesis by (simp add: get_combat_stats_two stats_two_def player_two_def)
qed

subsection \<open>The lookup of an object\<close>

lemma find_loop_count: "snd (find_loop m g n cur) \<le> n"
  by (induction n arbitrary: cur) (auto simp: Let_def split: option.splits)

lemma find_loop_match:
  "fst (find_loop m g n cur) \<noteq> 0 \<Longrightarrow>
     read_ulonglong m (fst (find_loop m g n cur) + OBJECT_GUID_OFFSET) = Some g"
  by (induction n arbitrary: cur) (auto simp: Let_def split: option.splits if_splits)

lemma find_loop_no_match:
  "\<forall>a\<in>set (chain m n cur). read_ulonglong m (a + OBJECT_GUID_OFFSET) \<noteq> Some g \<Longrightarrow>
     fst (find_loop m g n cur) = 0"
  by (induction n arbitrary: cur) (auto simp: Let_def split: option.splits if_splits)

lemma find_loop_read_fails:
  assumes "chain m n cur = pre @ a # post"
    and "\<forall>b\<in>set pre. read_ulonglong m (b + OBJECT_GUID_OFFSET) \<noteq> Some g"
    and "walk_read_fails m g a"
  shows "fst (find_loop m g n cur) = 0"
  using assms
proof (induction n arbitrary: cur pre)
  case 0
  then show ?case by simp
next
  case (Suc n)
  from Suc.prems(1) have cur: "cur \<noteq> 0" by (auto split: if_splits)
  show ?case
  proof (cases pre)
    case Nil
    with Suc.prems(1) cur have "a = cur" by simp
    with Suc.prems(3) cur show ?thesis
      by (auto simp: walk_read_fails_def split: option.splits)
  next
    case (Cons b pre')
    with Suc.prems(1) cur have b: "b = cur"
      and rest: "(case read_uint m (cur + NEXT_OBJECT_OFFSET) of
                    None \<Rightarrow> [] | Some nxt \<Rightarrow> chain m n (unat nxt)) = pre' @ a # post"
      by auto
    from Suc.prems(2) Cons b
    have ng: "read_ulonglong m (cur + OBJECT_GUID_OFFSET) \<noteq> Some g"
      and pre': "\<forall>b\<in>set pre'. read_ulonglong m (b + OBJECT_GUID_OFFSET) \<noteq> Some g"
      by simp_all
    from rest obtain nxt where nxt: "read_uint m (cur + NEXT_OBJECT_OFFSET) = Some nxt"
      "chain m n (unat nxt) = pre' @ a # post"
      by (cases "read_uint m (cur + NEXT_OBJECT_OFFSET)") simp_all
    from Suc.IH[OF nxt(2) pre' Suc.prems(3)] have "fst (find_loop m g n (unat nxt)) = 0" .
    with cur ng nxt(1) show ?thesis
      by (auto simp: Let_def split: option.splits)
  qed
qed

text \<open>
  Claim C2. For every state of the remote memory, cyclic chains included, the lookup
  enters the body of its loop at most 4096 times (and, a total function, it terminates);
  a result other than 0 is a node whose identifier is the GUID searched; when no node of
  the chain within the cap has that identifier, the cap is reached or a null pointer or
  a failed read ends the walk, and the result is 0.
\<close>

theorem find_object_bounded:
  "snd (find_loop m g 4096 cur) \<le> 4096
   \<and> (\<forall>a. fst (find_object_base_by_guid self g) = Inr a \<longrightarrow> a \<noteq> 0 \<longrightarrow>
          read_ulonglong (pm self) (a + OBJECT_GUID_OFFSET) = Some g)
   \<and> (\<forall>first.
        read_uint (pm self) (fst (get_object_manager_base self) + FIRST_OBJECT_OFFSET) = Some first \<longrightarrow>
        (\<forall>a\<in>set (chain (pm self) 4096 (unat first)).
            read_ulonglong (pm self) (a + OBJECT_GUID_OFFSET) \<noteq> Some g) \<longrightarrow>
        fst (find_object_base_by_guid self g) = Inr 0)"
proof (intro conjI allI impI)
  show "snd (find_loop m g 4096 cur) \<le> 4096" by (rule find_loop_count)
next
  fix a assume "fst (find_object_base_by_guid self g) = Inr a" "a \<noteq> 0"
  then show "read_ulonglong (pm self) (a + OBJECT_GUID_OFFSET) = Some g"
    using find_loop_match[of "pm self" g 4096] get_object_manager_base_pm[of self]
    by (auto simp: find_object_base_by_guid_def split: prod.splits if_splits option.splits)
next
  fix first
  assume "read_uint (pm self) (fst (get_object_manager_base self) + FIRST_OBJECT_OFFSET) = Some first"
    "\<forall>a\<in>set (chain (pm self) 4096 (unat first)).
       read_ulonglong (pm self) (a + OBJECT_GUID_OFFSET) \<noteq> Some g"
  then show "fst (find_object_base_by_guid self g) = Inr 0"
    using find_loop_no_match[of "pm self" 4096 "unat first" g] get_object_manager_base_pm[of self]
    by (auto simp: find_object_base_by_guid_def split: prod.splits if_splits option.splits)
qed

lemma cycle_reads:
  "read_uint mem_cycle (0x3000 + NEXT_OBJECT_OFFSET) = Some 0x4000"
  "read_uint mem_cycle (0x4000 + NEXT_OBJECT_OFFSET) = Some 0x3000"
  "read_ulonglong mem_cycle (0x3000 + OBJECT_GUID_OFFSET) = Some 7"
  "read_ulonglong mem_cycle (0x4000 + OBJECT_GUID_OFFSET) = Some 9"
  "read_uint mem_cycle (0x2000 + FIRST_OBJECT_OFFSET) = Some 0x3000"
  by (simp_all add: mem_cycle_def mem_two_def offsets)

lemma chain_cycle:
  "set (chain mem_cycle n 0x3000) \<subseteq> {0x3000, 0x4000}
   \<and> set (chain mem_cycle n 0x4000) \<subseteq> {0x3000, 0x4000}"
  by (induction n) (simp_all add: cycle_reads)

lemma find_loop_cycle:
  "a = 0x3000 \<or> a = 0x4000 \<Longrightarrow> find_loop mem_cycle 5 n a = (0, n)"
  by (induction n arbitrary: a) (auto simp: cycle_reads)

text \<open>
  On the cycle of length two of \<open>mem_cycle\<close>, the lookup of a GUID that no object has
  runs its 4096 iterations and returns 0.
\<close>

theorem find_object_bounded_witness:
  "fst (find_object_base_by_guid reader_cycle 5) = Inr 0
   \<and> find_loop mem_cycle 5 4096 0x3000 = (0, 4096)"
proof -
  have om: "get_object_manager_base reader_cycle = (0x2000, reader_cycle)"
    by (simp add: get_object_manager_base_def reader_cycle_def)
  have "\<forall>a\<in>set (chain mem_cycle 4096 0x3000).
      read_ulonglong mem_cycle (a + OBJECT_GUID_OFFSET) \<noteq> Some 5"
    using chain_cycle[of 4096] by (auto simp: cycle_reads)
  then have "fst (find_object_base_by_guid reader_cycle 5) = Inr 0"
    using find_object_bounded[of mem_cycle 5 "0x3000" reader_cycle] om
    by (simp add: reader_cycle_def cycle_reads)
  then show ?thesis by (simp add: find_loop_cycle)
qed

subsection \<open>The snapshots of the concrete processes\<close>

lemma player_objectD:
  assumes "player_object m"
  shows "read_uint m CUR_MGR_POINTER = Some 0x1000"
    "read_uint m (0x1000 + CUR_MGR_OFFSET) = Some 0x2000"
    "read_uchar m COMBO_POINTS_STATIC = Some 3"
    "read_ulonglong m (0x2000 + LOCAL_GUID_OFFSET) = Some 7"
    "read_uint m (0x3000 + M_STORAGE_OFFSET) = Some 0x5000"
    "read_int m (0x5000 + UNIT_FIELD_HEALTH) = Some 4500"
    "read_int m (0x5000 + UNIT_FIELD_MAXHEALTH) = Some 6000"
    "read_int m (0x5000 + UNIT_FIELD_POWER1) = Some 100"
    "read_int m (0x5000 + UNIT_FIELD_MAXPOWER1) = Some 200"
    "read_int m (0x5000 + UNIT_FIELD_LEVEL) = Some 80"
    "read_ulonglong m TARGET_GUID_STATIC = Some 9"
    "read_uint m (0x2000 + FIRST_OBJECT_OFFSET) = Some 0x3000"
    "read_ulonglong m (0x3000 + OBJECT_GUID_OFFSET) = Some 7"
  using assms by (simp_all add: player_object_def)

lemma find_player_object:
  assumes "player_object m"
  shows "find_object_base_by_guid \<lparr>pm = m, object_manager_base = 0x2000\<rparr> 7
           = (Inr 0x3000, \<lparr>pm = m, object_manager_base = 0x2000\<rparr>)"
  using assms
  by (simp add: player_object_def find_object_base_by_guid_def get_object_manager_base_def
        find_loop_numeral offsets)

lemma player_stats_player_object:
  assumes "player_object m"
  shows "player_stats \<lparr>pm = m, object_manager_base = 0\<rparr>
           = (Inr (Some player_two), \<lparr>pm = m, object_manager_base = 0x2000\<rparr>)"
proof -
  have om: "get_object_manager_base \<lparr>pm = m, object_manager_base = 0\<rparr>
      = (0x2000, \<lparr>pm = m, object_manager_base = 0x2000\<rparr>)"
    by (simp add: player_objectD[OF assms] get_object_manager_base_def)
  show ?thesis
    unfolding player_stats_def om
    by (simp add: find_player_object[OF assms] player_objectD[OF assms] reading_def
          read_player_part_def set_percent_def percent_examples player_two_def)
qed

lemma player_object_mems:
  "player_object mem_two" "player_object mem_no_descriptor" "player_object mem_no_name"
  "player_object mem_unreadable" "player_object mem_null_pointers"
  by (simp_all add: player_object_def mem_two_def mem_no_descriptor_def mem_no_name_def
        mem_unreadable_def mem_null_pointers_def offsets)

lemma two_objects_mems:
  "two_objects mem_two" "two_objects mem_no_descriptor" "two_objects mem_no_name"
  "two_objects mem_null_pointers"
  by (simp_all add: two_objects_def player_object_mems)
     (simp_all add: mem_two_def mem_no_descriptor_def mem_no_name_def mem_null_pointers_def
        offsets)

lemma find_two_objects:
  assumes "two_objects m"
  shows "find_object_base_by_guid \<lparr>pm = m, object_manager_base = 0x2000\<rparr> 9
           = (Inr 0x4000, \<lparr>pm = m, object_manager_base = 0x2000\<rparr>)"
  using assms
  by (simp add: two_objects_def player_object_def find_object_base_by_guid_def
        get_object_manager_base_def find_loop_numeral offsets)

lemma combat_stats_body_two_objects:
  assumes "two_objects m"
  shows "combat_stats_body \<lparr>pm = m, object_manager_base = 0\<rparr>
           = read_target \<lparr>pm = m, object_manager_base = 0x2000\<rparr> 0x4000
               (player_two(''has_target'' \<mapsto> PBool True))"
proof -
  from assms have p: "player_object m" by (simp add: two_objects_def)
  show ?thesis
    by (simp add: combat_stats_body_def player_stats_player_object[OF p] read_target_part_def
          player_objectD[OF p] reading_def find_two_objects[OF assms])
qed

lemma variant_reads:
  "read_uint mem_no_descriptor (0x4000 + M_STORAGE_OFFSET) = None"
  "read_uint mem_no_name = read_uint mem_two" "read_int mem_no_name = read_int mem_two"
  "read_string mem_no_name a = None"
  "read_uint mem_null_pointers (0x4000 + M_STORAGE_OFFSET) = Some 0"
  "read_uint mem_null_pointers (0x4000 + UNIT_NAME_1) = Some 0"
  by (simp_all add: mem_no_descriptor_def mem_no_name_def mem_null_pointers_def)

lemma get_combat_stats_no_descriptor:
  "get_combat_stats reader_no_descriptor
     = (None, \<lparr>pm = mem_no_descriptor, object_manager_base = 0x2000\<rparr>)"
  by (simp add: get_combat_stats_def reader_no_descriptor_def
        combat_stats_body_two_objects[OF two_objects_mems(2)] read_target_def reading_def
        variant_reads)

lemma get_combat_stats_no_name:
  "get_combat_stats reader_no_name
     = (Some (stats_two(''target_name'' \<mapsto> PStr [])),
        \<lparr>pm = mem_no_name, object_manager_base = 0x2000\<rparr>)"
  by (simp add: get_combat_stats_def reader_no_name_def
        combat_stats_body_two_objects[OF two_objects_mems(3)] read_target_def reading_def
        read_target_name_def set_percent_def percent_examples stats_two_def
        variant_reads target_reads_two)

lemma get_combat_stats_null_pointers:
  "get_combat_stats reader_null_pointers
     = (Some (player_two(''has_target'' \<mapsto> PBool True)),
        \<lparr>pm = mem_null_pointers, object_manager_base = 0x2000\<rparr>)"
  by (simp add: get_combat_stats_def reader_null_pointers_def
        combat_stats_body_two_objects[OF two_objects_mems(4)] read_target_def reading_def
        read_target_name_def variant_reads)

lemma chain_numeral:
  "chain m (numeral k) a =
     (if a = 0 then []
      else a # (case read_uint m (a + NEXT_OBJECT_OFFSET) of
                  None \<Rightarrow> [] | Some nxt \<Rightarrow> chain m (pred_numeral k) (unat nxt)))"
  by (simp add: numeral_eq_Suc)

lemma unreadable_reads:
  "read_uint mem_unreadable (0x2000 + FIRST_OBJECT_OFFSET) = Some 0x3000"
  "read_uint mem_unreadable (0x3000 + NEXT_OBJECT_OFFSET) = Some 0x4800"
  "read_uint mem_unreadable (0x4800 + NEXT_OBJECT_OFFSET) = Some 0x4000"
  "read_uint mem_unreadable (0x4000 + NEXT_OBJECT_OFFSET) = Some 0"
  "read_ulonglong mem_unreadable (0x3000 + OBJECT_GUID_OFFSET) = Some 7"
  "read_ulonglong mem_unreadable (0x4800 + OBJECT_GUID_OFFSET) = None"
  "read_ulonglong mem_unreadable (0x4000 + OBJECT_GUID_OFFSET) = Some 9"
  "read_ulonglong mem_unreadable TARGET_GUID_STATIC = Some 9"
  by (simp_all add: mem_unreadable_def mem_two_def offsets)

lemma chain_unreadable: "chain mem_unreadable 4096 0x3000 = [0x3000, 0x4800, 0x4000]"
  by (simp add: chain_numeral unreadable_reads)

lemma walk_unreadable: "walk_read_fails mem_unreadable 9 0x4800"
  by (simp add: walk_read_fails_def unreadable_reads)

lemma get_combat_stats_unreadable:
  "get_combat_stats reader_unreadable
     = (Some (player_two(''has_target'' \<mapsto> PBool True)),
        \<lparr>pm = mem_unreadable, object_manager_base = 0x2000\<rparr>)"
  by (simp add: get_combat_stats_def combat_stats_body_def reader_unreadable_def
        player_stats_player_object[OF player_object_mems(4)] read_target_part_def reading_def
        find_object_base_by_guid_def get_object_manager_base_def find_loop_numeral
        unreadable_reads)

subsection \<open>Failures in the target sub-path\<close>

lemma name_read_fails_empty:
  "name_read_fails m tb \<Longrightarrow> read_target_name m tb st ''target_name'' = Some (PStr [])"
  by (auto simp: name_read_fails_def read_target_name_def split: option.splits)

lemma read_target_readable:
  assumes "read_uint (pm self) (tb + M_STORAGE_OFFSET) = Some d"
    and "d = 0 \<or> target_fields_readable (pm self) (unat d)"
  shows "\<exists>st'. read_target self tb st = (Inr (Some (read_target_name (pm self) tb st')), self)
           \<and> st' ''has_target'' = st ''has_target''"
  using assms unfolding read_target_def Let_def set_percent_eq target_fields_readable_def
  by (auto simp: reading_def)

lemma target_part_not_found:
  assumes g: "read_ulonglong (pm self) TARGET_GUID_STATIC = Some g" "g \<noteq> 0"
    and f: "find_object_base_by_guid self g = (Inr 0, self)"
  shows "read_target_part self st = (Inr (Some (st(''has_target'' \<mapsto> PBool True))), self)"
  using g by (simp add: read_target_part_def reading_def f word_greater_zero_iff)

lemma target_part_found:
  assumes g: "read_ulonglong (pm self) TARGET_GUID_STATIC = Some g" "g \<noteq> 0"
    and f: "find_object_base_by_guid self g = (Inr tb, self)" "tb \<noteq> 0"
  shows "read_target_part self st = read_target self tb (st(''has_target'' \<mapsto> PBool True))"
  using g f(2) by (simp add: read_target_part_def reading_def f(1) word_greater_zero_iff)

lemma get_combat_stats_target_part:
  assumes "player_stats self0 = (Inr (Some st), self1)"
    and "read_target_part self1 st = (Inr r, self2)"
  shows "get_combat_stats self0 = (r, self2)"
  using assms by (simp add: get_combat_stats_def combat_stats_body_def)

text \<open>
  Claim C4, amended. When the player-side path succeeds and the GUID of the target is not
  zero: a read that fails in the walk of the object chain (the identifier or the next
  pointer of a node that the walk reaches before a match, the head of the chain having
  been read) gives a snapshot with \<open>has_target\<close> set, zero target stats and an empty
  name; and with the target object found and its descriptor pointer and stat fields
  read, a read that fails in the name sub-path gives a snapshot with an empty name.
\<close>

theorem target_failure_graceful:
  assumes p: "player_stats self0 = (Inr (Some st), self1)"
    and g: "read_ulonglong (pm self1) TARGET_GUID_STATIC = Some g" "g \<noteq> 0"
  shows "(\<forall>first pre a post.
            read_uint (pm self1) (object_manager_base self1 + FIRST_OBJECT_OFFSET) = Some first \<longrightarrow>
            chain (pm self1) 4096 (unat first) = pre @ a # post \<longrightarrow>
            (\<forall>b\<in>set pre. read_ulonglong (pm self1) (b + OBJECT_GUID_OFFSET) \<noteq> Some g) \<longrightarrow>
            walk_read_fails (pm self1) g a \<longrightarrow>
            (\<exists>s. fst (get_combat_stats self0) = Some s \<and> s ''has_target'' = Some (PBool True)
               \<and> s ''target_hp'' = Some (PInt 0) \<and> s ''target_max_hp'' = Some (PInt 0)
               \<and> s ''target_hp_percent'' = Some (PInt 0) \<and> s ''target_level'' = Some (PInt 0)
               \<and> s ''target_name'' = Some (PStr [])))
     \<and> (\<forall>tb d.
            fst (find_object_base_by_guid self1 g) = Inr tb \<longrightarrow> tb \<noteq> 0 \<longrightarrow>
            read_uint (pm self1) (tb + M_STORAGE_OFFSET) = Some d \<longrightarrow>
            d = 0 \<or> target_fields_readable (pm self1) (unat d) \<longrightarrow>
            name_read_fails (pm self1) tb \<longrightarrow>
            (\<exists>s. fst (get_combat_stats self0) = Some s \<and> s ''has_target'' = Some (PBool True)
               \<and> s ''target_name'' = Some (PStr [])))"
proof (intro conjI allI impI)
  from player_stats_done[OF p] have d: "player_done st" and c: "object_manager_base self1 \<noteq> 0"
    by simp_all
  {
    fix first pre a post
    assume h: "read_uint (pm self1) (object_manager_base self1 + FIRST_OBJECT_OFFSET) = Some first"
      and w: "chain (pm self1) 4096 (unat first) = pre @ a # post"
        "\<forall>b\<in>set pre. read_ulonglong (pm self1) (b + OBJECT_GUID_OFFSET) \<noteq> Some g"
        "walk_read_fails (pm self1) g a"
    from w have "fst (find_loop (pm self1) g 4096 (unat first)) = 0"
      by (rule find_loop_read_fails)
    with h c g(2) have "find_object_base_by_guid self1 g = (Inr 0, self1)"
      by (simp add: find_object_base_by_guid_def get_object_manager_base_cached)
    with g have "read_target_part self1 st = (Inr (Some (st(''has_target'' \<mapsto> PBool True))), self1)"
      by (rule target_part_not_found)
    with p have "get_combat_stats self0 = (Some (st(''has_target'' \<mapsto> PBool True)), self1)"
      by (rule get_combat_stats_target_part)
    with d show "\<exists>s. fst (get_combat_stats self0) = Some s \<and> s ''has_target'' = Some (PBool True)
               \<and> s ''target_hp'' = Some (PInt 0) \<and> s ''target_max_hp'' = Some (PInt 0)
               \<and> s ''target_hp_percent'' = Some (PInt 0) \<and> s ''target_level'' = Some (PInt 0)
               \<and> s ''target_name'' = Some (PStr [])"
      by (simp add: player_done_def)
  }
  {
    fix tb d'
    assume f: "fst (find_object_base_by_guid self1 g) = Inr tb" "tb \<noteq> 0"
      and r: "read_uint (pm self1) (tb + M_STORAGE_OFFSET) = Some d'"
        "d' = 0 \<or> target_fields_readable (pm self1) (unat d')"
      and n: "name_read_fails (pm self1) tb"
    from f(1) find_object_base_by_guid_cached[OF c, of g]
    have "find_object_base_by_guid self1 g = (Inr tb, self1)"
      by (cases "find_object_base_by_guid self1 g") simp
    with g f(2)
    have t: "read_target_part self1 st = read_target self1 tb (st(''has_target'' \<mapsto> PBool True))"
      by (intro target_part_found)
    from read_target_readable[OF r, of "st(''has_target'' \<mapsto> PBool True)"]
    obtain st' where "read_target self1 tb (st(''has_target'' \<mapsto> PBool True))
         = (Inr (Some (read_target_name (pm self1) tb st')), self1)"
      "st' ''has_target'' = Some (PBool True)"
      by auto
    with p t have "get_combat_stats self0 = (Some (read_target_name (pm self1) tb st'), self1)"
      "st' ''has_target'' = Some (PBool True)"
      by (simp_all add: get_combat_stats_target_part)
    with n show "\<exists>s. fst (get_combat_stats self0) = Some s \<and> s ''has_target'' = Some (PBool True)
               \<and> s ''target_name'' = Some (PStr [])"
      by (simp add: read_target_name_other name_read_fails_empty)
  }
qed

text \<open>
  The process with an object whose identifier cannot be read before the target in the
  chain: zero target stats and an empty name. The process whose target name cannot be
  read: a snapshot with an empty name.
\<close>

theorem target_failure_graceful_witness:
  "player_stats reader_unreadable
     = (Inr (Some player_two), \<lparr>pm = mem_unreadable, object_manager_base = 0x2000\<rparr>)
   \<and> read_ulonglong mem_unreadable TARGET_GUID_STATIC = Some 9
   \<and> read_uint mem_unreadable (0x2000 + FIRST_OBJECT_OFFSET) = Some 0x3000
   \<and> chain mem_unreadable 4096 0x3000 = [0x3000] @ 0x4800 # [0x4000]
   \<and> read_ulonglong mem_unreadable (0x3000 + OBJECT_GUID_OFFSET) = Some 7
   \<and> walk_read_fails mem_unreadable 9 0x4800
   \<and> fst (get_combat_stats reader_unreadable) = Some (player_two(''has_target'' \<mapsto> PBool True))
   \<and> player_stats reader_no_name
       = (Inr (Some player_two), \<lparr>pm = mem_no_name, object_manager_base = 0x2000\<rparr>)
   \<and> read_ulonglong mem_no_name TARGET_GUID_STATIC = Some 9
   \<and> fst (find_object_base_by_guid \<lparr>pm = mem_no_name, object_manager_base = 0x2000\<rparr> 9)
       = Inr 0x4000
   \<and> read_uint mem_no_name (0x4000 + M_STORAGE_OFFSET) = Some 0x6000
   \<and> target_fields_readable mem_no_name 0x6000
   \<and> name_read_fails mem_no_name 0x4000
   \<and> fst (get_combat_stats reader_no_name) = Some (stats_two(''target_name'' \<mapsto> PStr []))"
proof -
  have p1: "player_stats reader_unreadable
     = (Inr (Some player_two), \<lparr>pm = mem_unreadable, object_manager_base = 0x2000\<rparr>)"
    unfolding reader_unreadable_def by (rule player_stats_player_object[OF player_object_mems(4)])
  have g1: "read_ulonglong (pm \<lparr>pm = mem_unreadable, object_manager_base = 0x2000\<rparr>)
      TARGET_GUID_STATIC = Some 9" "(9 :: 64 word) \<noteq> 0"
    by (simp_all add: unreadable_reads)
  have p2: "player_stats reader_no_name
     = (Inr (Some player_two), \<lparr>pm = mem_no_name, object_manager_base = 0x2000\<rparr>)"
    unfolding reader_no_name_def by (rule player_stats_player_object[OF player_object_mems(3)])
  have g2: "read_ulonglong (pm \<lparr>pm = mem_no_name, object_manager_base = 0x2000\<rparr>)
      TARGET_GUID_STATIC = Some 9"
    by (simp add: player_objectD[OF player_object_mems(3)])
  have r: "read_uint mem_no_name (0x4000 + M_STORAGE_OFFSET) = Some 0x6000"
    "target_fields_readable mem_no_name 0x6000" "name_read_fails mem_no_name 0x4000"
    by (simp_all add: target_fields_readable_def name_read_fails_def variant_reads target_reads_two)
  from target_failure_graceful[OF p1 g1] target_failure_graceful[OF p2 g2 g1(2)] p1 p2 r
  show ?thesis
    by (simp add: unreadable_reads chain_unreadable walk_unreadable get_combat_stats_unreadable
          player_objectD[OF player_object_mems(3)] find_two_objects[OF two_objects_mems(3)]
          get_combat_stats_no_name)
qed

text \<open>
  Claim C4 as it is written fails: in \<open>reader_no_descriptor\<close> the player-side path
  succeeds and the GUID of the target is 9, the read of the descriptor pointer of the
  target fails, and the whole call returns \<^verbatim>\<open>None\<close>.
\<close>

theorem target_failure_counterexample:
  "fst (player_stats reader_no_descriptor) = Inr (Some player_two)
   \<and> read_ulonglong (pm reader_no_descriptor) TARGET_GUID_STATIC = Some 9
   \<and> read_uint (pm reader_no_descriptor) (0x4000 + M_STORAGE_OFFSET) = None
   \<and> fst (get_combat_stats reader_no_descriptor) = None"
  by (simp add: get_combat_stats_no_descriptor)
     (simp add: reader_no_descriptor_def player_stats_player_object[OF player_object_mems(2)]
        player_objectD[OF player_object_mems(2)] variant_reads)

subsection \<open>The schema of a snapshot\<close>

lemma read_target_snd: "snd (read_target self tb st) = self"
  unfolding read_target_def Let_def set_percent_eq
  by (auto simp: reading_def split: option.splits)

lemma find_object_base_by_guid_reader:
  "0 < object_manager_base self \<Longrightarrow> find_object_base_by_guid self g = (r, self') \<Longrightarrow>
     self' = self"
  using find_object_base_by_guid_cached[of self g] by simp

lemma read_target_part_snd:
  "object_manager_base self \<noteq> 0 \<Longrightarrow> snd (read_target_part self st) = self"
  unfolding read_target_part_def Let_def
  by (auto simp: reading_def read_target_snd split: option.splits prod.splits sum.splits
      dest: find_object_base_by_guid_reader)

lemma name_not_read_empty:
  "name_not_read m tb \<Longrightarrow> st ''target_name'' = Some (PStr []) \<Longrightarrow>
     read_target_name m tb st ''target_name'' = Some (PStr [])"
  by (auto simp: name_not_read_def read_target_name_def split: option.splits)

lemma target_stats_initial_name:
  "target_stats_initial (read_target_name m tb st) = target_stats_initial st"
  by (simp add: target_stats_initial_def read_target_name_other)

lemma read_target_initial:
  assumes r: "read_target self tb st = (Inr (Some s), self')"
    and i: "target_stats_initial st" "st ''target_name'' = Some (PStr [])"
  shows "s ''has_target'' = st ''has_target''
    \<and> (read_uint (pm self) (tb + M_STORAGE_OFFSET) = Some 0 \<longrightarrow> target_stats_initial s)
    \<and> (name_not_read (pm self) tb \<longrightarrow> s ''target_name'' = Some (PStr []))"
  using r
proof (cases rule: read_target_cases)
  case null
  with i show ?thesis
    by (simp add: target_stats_initial_name read_target_name_other name_not_read_empty)
next
  case (desc d hp mx lv)
  with i(2) show ?thesis
    by (simp add: read_target_name_other name_not_read_empty)
qed

text \<open>
  Claim C9, amended. A snapshot that \<^verbatim>\<open>get_combat_stats\<close> returns has exactly the fourteen
  fields of the schema, none of them \<^verbatim>\<open>None\<close>, so the lookup of each of the eight
  statistic kinds \<open>snapshot_kinds\<close> finds a value. A field of the target that is not read
  is as it was initialised: with no target, \<open>has_target\<close> is false, the target stats are
  zero and the name is empty; with a target whose object is not found, the stats are zero
  and the name is empty; with a null descriptor pointer the stats are zero; and with a
  null name pointer or a failed read of the name sub-path the name is empty.
\<close>

theorem snapshot_schema:
  assumes "get_combat_stats self = (Some s, self')"
  shows "dom s = set schema
    \<and> (\<forall>k\<in>set schema. \<exists>v. s k = Some v \<and> v \<noteq> PNone)
    \<and> (\<forall>k\<in>set snapshot_kinds. \<exists>v. s k = Some v \<and> v \<noteq> PNone)
    \<and> (\<forall>g. read_ulonglong (pm self') TARGET_GUID_STATIC = Some g \<longrightarrow>
          s ''has_target'' = Some (PBool (g \<noteq> 0))
          \<and> (g = 0 \<longrightarrow> target_stats_initial s \<and> s ''target_name'' = Some (PStr []))
          \<and> (\<forall>tb. g \<noteq> 0 \<longrightarrow> fst (find_object_base_by_guid self' g) = Inr tb \<longrightarrow>
                (tb = 0 \<longrightarrow> target_stats_initial s \<and> s ''target_name'' = Some (PStr []))
                \<and> (read_uint (pm self') (tb + M_STORAGE_OFFSET) = Some 0 \<longrightarrow>
                      target_stats_initial s)
                \<and> (name_not_read (pm self') tb \<longrightarrow> s ''target_name'' = Some (PStr []))))"
proof -
  from assms obtain st self1 where p: "player_stats self = (Inr (Some st), self1)"
    and t: "read_target_part self1 st = (Inr (Some s), self')"
    and d: "player_done st"
    by (rule get_combat_stats_parts)
  from player_stats_done[OF p] have c: "object_manager_base self1 \<noteq> 0" by simp
  from read_target_part_snd[OF c, of st] t have e: "self' = self1" by simp
  from d have i: "target_stats_initial st" "st ''target_name'' = Some (PStr [])"
    by (simp_all add: player_done_def target_stats_initial_def)
  have i1: "target_stats_initial (st(''has_target'' \<mapsto> b))" for b
    using i(1) by (simp add: target_stats_initial_def)
  from t d have ok: "snapshot_ok s" by (rule read_target_part_ok)
  then have dom: "dom s = set schema" and nn: "\<And>k. s k \<noteq> Some PNone"
    by (simp_all add: snapshot_ok_def)
  have f: "\<exists>v. s k = Some v \<and> v \<noteq> PNone" if "k \<in> set schema" for k
  proof -
    from that dom have "k \<in> dom s" by simp
    then obtain v where "s k = Some v" by blast
    with nn[of k] show ?thesis by auto
  qed
  have v: "k \<in> set schema" if "k \<in> set snapshot_kinds" for k
    using that by (auto simp: snapshot_kinds_def schema_def)
  have z: "s ''has_target'' = Some (PBool (g \<noteq> 0))
          \<and> (g = 0 \<longrightarrow> target_stats_initial s \<and> s ''target_name'' = Some (PStr []))
          \<and> (\<forall>tb. g \<noteq> 0 \<longrightarrow> fst (find_object_base_by_guid self' g) = Inr tb \<longrightarrow>
                (tb = 0 \<longrightarrow> target_stats_initial s \<and> s ''target_name'' = Some (PStr []))
                \<and> (read_uint (pm self') (tb + M_STORAGE_OFFSET) = Some 0 \<longrightarrow>
                      target_stats_initial s)
                \<and> (name_not_read (pm self') tb \<longrightarrow> s ''target_name'' = Some (PStr [])))"
    if "read_ulonglong (pm self') TARGET_GUID_STATIC = Some g" for g
    using t
  proof (cases rule: read_target_part_cases)
    case no_target
    with that e i i1 show ?thesis by simp
  next
    case (not_found g')
    with that e i i1 show ?thesis by simp
  next
    case (found g' tb')
    from found(5) find_object_base_by_guid_cached[OF c, of g']
    have "read_target self1 tb' (st(''has_target'' \<mapsto> PBool True)) = (Inr (Some s), self')"
      by simp
    from read_target_initial[OF this i1] i(2)
    have "s ''has_target'' = Some (PBool True)
      \<and> (read_uint (pm self1) (tb' + M_STORAGE_OFFSET) = Some 0 \<longrightarrow> target_stats_initial s)
      \<and> (name_not_read (pm self1) tb' \<longrightarrow> s ''target_name'' = Some (PStr []))"
      by simp
    with found(1-4) that e show ?thesis by simp
  qed
  from dom f v z show ?thesis by blast
qed

text \<open>
  The process whose target has a null descriptor pointer and a null name pointer: the
  snapshot has the fields of the schema, zero target stats and an empty name.
\<close>

theorem snapshot_schema_witness:
  "get_combat_stats reader_null_pointers
     = (Some (player_two(''has_target'' \<mapsto> PBool True)),
        \<lparr>pm = mem_null_pointers, object_manager_base = 0x2000\<rparr>)
   \<and> read_ulonglong mem_null_pointers TARGET_GUID_STATIC = Some 9
   \<and> fst (find_object_base_by_guid \<lparr>pm = mem_null_pointers, object_manager_base = 0x2000\<rparr> 9)
       = Inr 0x4000
   \<and> read_uint mem_null_pointers (0x4000 + M_STORAGE_OFFSET) = Some 0
   \<and> name_not_read mem_null_pointers 0x4000
   \<and> dom (player_two(''has_target'' \<mapsto> PBool True)) = set schema
   \<and> (player_two(''has_target'' \<mapsto> PBool True)) ''has_target'' = Some (PBool True)
   \<and> target_stats_initial (player_two(''has_target'' \<mapsto> PBool True))
   \<and> (player_two(''has_target'' \<mapsto> PBool True)) ''target_name'' = Some (PStr [])"
proof -
  have g: "read_ulonglong mem_null_pointers TARGET_GUID_STATIC = Some 9"
    by (rule player_objectD[OF player_object_mems(5)])
  have f: "fst (find_object_base_by_guid \<lparr>pm = mem_null_pointers, object_manager_base = 0x2000\<rparr> 9)
      = Inr 0x4000"
    by (simp add: find_two_objects[OF two_objects_mems(4)])
  have n: "name_not_read mem_null_pointers 0x4000"
    by (simp add: name_not_read_def variant_reads)
  from snapshot_schema[OF get_combat_stats_null_pointers] g f n variant_reads(5)
  have "dom (player_two(''has_target'' \<mapsto> PBool True)) = set schema
    \<and> (player_two(''has_target'' \<mapsto> PBool True)) ''has_target'' = Some (PBool True)
    \<and> target_stats_initial (player_two(''has_target'' \<mapsto> PBool True))
    \<and> (player_two(''has_target'' \<mapsto> PBool True)) ''target_name'' = Some (PStr [])"
    by simp
  with g f n variant_reads(5) show ?thesis by (simp add: get_combat_stats_null_pointers)
qed

text \<open>
  Claim C9 as it is written fails: \<open>target_is_own_character\<close> is a known statistic kind,
  and its lookup in the snapshot of \<open>reader_two\<close> finds no field.
\<close>

theorem snapshot_lookup_counterexample:
  "get_combat_stats reader_two = (Some stats_two, reader_two_cached)
   \<and> ''target_is_own_character'' \<in> set VALID_STATS
   \<and> stats_two ''target_is_own_character'' = None"
  by (simp add: get_combat_stats_two VALID_STATS_def stats_two_def player_two_def initial_stats_def)

subsection \<open>The evaluation of a condition\<close>

lemma lower_examples:
  "py_lower ''Thrall'' = ''thrall''" "py_lower ''thrall'' = ''thrall''"
  "py_lower [char_of (201 :: nat)] = [char_of (233 :: nat)]"
  "py_lower [char_of (215 :: nat)] = [char_of (215 :: nat)]"
  by code_simp+

lemma check_condition_missing:
  "st (stat c) = None \<or> st (stat c) = Some PNone \<Longrightarrow> check_condition fp cf c st = Inr False"
  by (auto simp: check_condition_def)

lemma stats_two_lookup:
  "stats_two ''has_target'' = Some (PBool True)"
  "stats_two ''target_name'' = Some (PStr ''thrall'')"
  "stats_two ''target_is_own_character'' = None"
  "stats_two ''player_hp_percent'' = Some (PInt 75)"
  by (simp_all add: stats_two_def player_two_def initial_stats_def)

text \<open>
  Claim C5, the code at the failing input. A condition on \<open>has_target\<close> whose value is
  the string \<open>yes\<close>, evaluated on the snapshot of \<open>reader_two\<close>, a client with a
  target: \<^verbatim>\<open>condition.value > 0\<close> raises \<^verbatim>\<open>TypeError\<close>, where the claim says that
  the evaluation returns false.
\<close>

theorem check_condition_raises:
  "get_combat_stats reader_two = (Some stats_two, reader_two_cached)
   \<and> check_condition no_float cfg_thrall cond_has_target_str stats_two = Inl TypeError"
  by (simp add: get_combat_stats_two check_condition_def cond_has_target_str_def
        stats_two_lookup py_gt_zero_def)

lemma own_names_thrall: "own_character_names cfg_thrall = [''thrall'']"
  by code_simp

text \<open>
  Claim C8, the code at the failing input. The configured character is \<open>Thrall\<close> and the
  name of the target in the snapshot of \<open>reader_two\<close> is \<open>thrall\<close>, a member of the
  own-character names without regard to case; the condition that the target is an own
  character evaluates to false, because the snapshot has no field of that name and the
  lookup at the head of \<^verbatim>\<open>_check_condition\<close> returns before the membership is tested.
\<close>

theorem own_character_never_holds:
  "get_combat_stats reader_two = (Some stats_two, reader_two_cached)
   \<and> stats_two ''target_name'' = Some (PStr ''thrall'')
   \<and> own_character_names cfg_thrall = [''thrall'']
   \<and> check_condition no_float cfg_thrall cond_own_character stats_two = Inr False"
  by (simp add: get_combat_stats_two stats_two_lookup own_names_thrall check_condition_missing
        cond_own_character_def)

text \<open>On every snapshot of \<^verbatim>\<open>get_combat_stats\<close> such a condition is false.\<close>

lemma own_character_snapshot:
  assumes "get_combat_stats self = (Some s, self')" "stat c = ''target_is_own_character''"
  shows "check_condition fp cf c s = Inr False"
proof -
  have n: "''target_is_own_character'' \<notin> set schema" by (simp add: schema_def)
  from assms(1) have "snapshot_ok s" by (rule get_combat_stats_ok)
  then have d: "dom s = set schema" by (simp add: snapshot_ok_def)
  have "''target_is_own_character'' \<notin> dom s" unfolding d by (rule n)
  then have "s ''target_is_own_character'' = None" by blast
  with assms(2) show ?thesis by (simp add: check_condition_missing)
qed

subsection \<open>The first rule that matches\<close>







subsection \<open>Round robin\<close>

lemma non_main_rr_state [simp]: "non_main (self\<lparr>rr_state := x\<rparr>) = non_main self"
  by (simp add: non_main_def)

lemma rr_arr_rr_state [simp]: "rr_arr (self\<lparr>rr_state := x\<rparr>) = rr_arr self"
  by (simp add: rr_arr_def)

lemma rr_arr_nonempty: "hwnds self \<noteq> [] \<Longrightarrow> rr_arr self \<noteq> []"
  by (simp add: rr_arr_def)

lemma rr_names:
  "''round_robin'' \<noteq> ''main''" "''round_robin'' \<noteq> ''all''"
  "''round_robin'' \<noteq> ''all_except_main''" "''round_robin'' \<noteq> ''slots''"
  by simp_all

lemma targets_for_round_robin:
  assumes "hwnds self \<noteq> []"
  shows "targets_for self ''round_robin'' sl
     = ([rr_arr self ! nat ((case rr_state self ''__rr_default__'' of None \<Rightarrow> 0 | Some i \<Rightarrow> i)
                             mod int (length (rr_arr self)))],
        self\<lparr>rr_state := (rr_state self)(''__rr_default__'' \<mapsto>
          (case rr_state self ''__rr_default__'' of None \<Rightarrow> 0 | Some i \<Rightarrow> i)
            mod int (length (rr_arr self)) + 1)\<rparr>)"
  using assms rr_arr_nonempty[OF assms]
  by (simp add: targets_for_def Let_def del: One_nat_def)

lemma run_macro_body_round_robin:
  assumes "hwnds self \<noteq> []" "target m = ''round_robin''"
  shows "fst (run_macro_body self m)
           = Some [rr_arr self ! nat (rr_index m mod int (length (rr_arr self)))]"
    and "fst (snd (run_macro_body self m))
           = m\<lparr>rr_index := (rr_index m + 1) mod int (length (rr_arr self))\<rparr>"
    and "hwnds (snd (snd (run_macro_body self m))) = hwnds self"
    and "main_hwnd (snd (snd (run_macro_body self m))) = main_hwnd self"
  using assms rr_arr_nonempty[OF assms(1)]
  by (simp_all add: run_macro_body_def targets_for_round_robin Let_def)

lemma nth_mod_index:
  "xs \<noteq> [] \<Longrightarrow> nat (i mod int (length xs)) < length xs"
  by (simp add: nat_less_iff)

lemma only_main:
  assumes "hwnds self \<noteq> []" "non_main self = []"
  shows "rr_arr self = [hd (hwnds self)]" "main_hwnd self = Some (hd (hwnds self))"
proof -
  from assms(1) obtain h hs where h: "hwnds self = h # hs" by (cases "hwnds self") auto
  with assms(2) show "rr_arr self = [hd (hwnds self)]" by (simp add: rr_arr_def)
  from assms(2) h show "main_hwnd self = Some (hd (hwnds self))"
    by (auto simp: non_main_def split: if_splits)
qed

text \<open>
  Claim C10. With a window registry that is not empty, the round-robin resolution of
  \<^verbatim>\<open>_targets_for\<close>, and that of \<^verbatim>\<open>_run_macro_body\<close> for a round-robin macro, give exactly
  one window handle, a handle of the registry; when the registry has no handle but that
  of the main window, the handle is the main window.
\<close>

theorem round_robin_one_target:
  assumes "hwnds self \<noteq> []"
  shows "(\<exists>h. fst (targets_for self ''round_robin'' sl) = [h] \<and> h \<in> set (hwnds self)
            \<and> (non_main self = [] \<longrightarrow> main_hwnd self = Some h))
       \<and> (target m = ''round_robin'' \<longrightarrow>
            (\<exists>h. fst (run_macro_body self m) = Some [h] \<and> h \<in> set (hwnds self)
               \<and> (non_main self = [] \<longrightarrow> main_hwnd self = Some h)))"
proof -
  have a: "rr_arr self \<noteq> []" using assms by (rule rr_arr_nonempty)
  have s: "set (rr_arr self) \<subseteq> set (hwnds self)"
    by (auto simp: rr_arr_def non_main_def dest: in_set_takeD)
  have k: "rr_arr self ! nat (i mod int (length (rr_arr self))) \<in> set (hwnds self)
      \<and> (non_main self = [] \<longrightarrow>
            main_hwnd self = Some (rr_arr self ! nat (i mod int (length (rr_arr self)))))" for i
  proof
    from nth_mod_index[OF a, of i] s
    show "rr_arr self ! nat (i mod int (length (rr_arr self))) \<in> set (hwnds self)"
      using nth_mem by blast
    show "non_main self = [] \<longrightarrow>
            main_hwnd self = Some (rr_arr self ! nat (i mod int (length (rr_arr self))))"
      using only_main[OF assms] by simp
  qed
  show ?thesis
    using k by (simp add: targets_for_round_robin[OF assms] run_macro_body_round_robin(1)[OF assms])
qed

text \<open>The controller whose only window is the main window, 10.\<close>

theorem round_robin_one_target_witness:
  "hwnds ctrl_main_only = [10] \<and> non_main ctrl_main_only = []
   \<and> main_hwnd ctrl_main_only = Some 10
   \<and> fst (targets_for ctrl_main_only ''round_robin'' []) = [10]
   \<and> fst (run_macro_body ctrl_main_only macro_rr) = Some [10]"
proof -
  have h: "hwnds ctrl_main_only \<noteq> []" "non_main ctrl_main_only = []"
    "main_hwnd ctrl_main_only = Some 10" "target macro_rr = ''round_robin''"
    by (simp_all add: ctrl_main_only_def non_main_def macro_rr_def)
  from round_robin_one_target[OF h(1), of "[]" macro_rr] h
  have "fst (targets_for ctrl_main_only ''round_robin'' []) = [10]"
    "fst (run_macro_body ctrl_main_only macro_rr) = Some [10]"
    by auto
  with h show ?thesis by (simp add: ctrl_main_only_def)
qed

lemma invocations_round_robin:
  assumes "target m = ''round_robin''" "non_main self \<noteq> []"
  shows "invocations n self m
     = map (\<lambda>k. Some [non_main self ! nat ((rr_index m + int k) mod int (length (non_main self)))])
         [0..<n]"
  using assms
proof (induction n arbitrary: self m)
  case 0
  then show ?case by simp
next
  case (Suc n)
  let ?L = "int (length (non_main self))"
  from Suc.prems(2) have h: "hwnds self \<noteq> []" by (auto simp: non_main_def)
  from Suc.prems(2) have a: "rr_arr self = non_main self" by (simp add: rr_arr_def)
  obtain t m' self' where r: "run_macro_body self m = (t, m', self')"
    by (cases "run_macro_body self m")
  from run_macro_body_round_robin[OF h Suc.prems(1)] r a
  have t: "t = Some [non_main self ! nat (rr_index m mod ?L)]"
    and m': "m' = m\<lparr>rr_index := (rr_index m + 1) mod ?L\<rparr>"
    and s': "hwnds self' = hwnds self" "main_hwnd self' = main_hwnd self"
    by simp_all
  from s' have n': "non_main self' = non_main self" by (simp add: non_main_def)
  from m' Suc.prems(1) have tm: "target m' = ''round_robin''" by simp
  have "invocations n self' m'
      = map (\<lambda>k. Some [non_main self ! nat ((rr_index m' + int k) mod ?L)]) [0..<n]"
    using Suc.IH[OF tm, of self'] Suc.prems(2) n' by simp
  also have "\<dots> = map (\<lambda>k. Some [non_main self ! nat ((rr_index m + int (Suc k)) mod ?L)]) [0..<n]"
  proof -
    have "(rr_index m' + int k) mod ?L = (rr_index m + int (Suc k)) mod ?L" for k
    proof -
      have "(rr_index m' + int k) mod ?L = ((rr_index m + 1) mod ?L + int k) mod ?L"
        by (simp add: m')
      also have "\<dots> = (rr_index m + 1 + int k) mod ?L" by (rule mod_add_left_eq)
      also have "rr_index m + 1 + int k = rr_index m + int (Suc k)" by simp
      finally show ?thesis .
    qed
    then show ?thesis by simp
  qed
  finally have i: "invocations n self' m'
      = map (\<lambda>k. Some [non_main self ! nat ((rr_index m + int (Suc k)) mod ?L)]) [0..<n]" .
  have "[0..<Suc n] = 0 # map Suc [0..<n]" by (simp add: upt_conv_Cons map_Suc_upt del: upt_Suc)
  then show ?case by (simp add: r t i comp_def del: upt_Suc)
qed

text \<open>
  Claim C7. For a macro with the round-robin policy and a list of non-main handles that
  is not empty, the \<open>k\<close>-th of \<open>n\<close> successive invocations targets the single handle at
  the index of the macro plus \<open>k\<close>, modulo the length of the list; an invocation advances
  the index of the macro by one, modulo the length; and the index is that of the macro,
  the round-robin state that the controller keeps for \<^verbatim>\<open>_targets_for\<close> having no part
  in it.
\<close>

theorem round_robin_cycle:
  assumes "target m = ''round_robin''" "non_main self \<noteq> []"
  shows "invocations n self m
       = map (\<lambda>k. Some [non_main self ! nat ((rr_index m + int k) mod int (length (non_main self)))])
           [0..<n]
     \<and> rr_index (fst (snd (run_macro_body self m)))
         = (rr_index m + 1) mod int (length (non_main self))
     \<and> invocations n (self\<lparr>rr_state := x\<rparr>) m = invocations n self m"
proof -
  from assms(2) have h: "hwnds self \<noteq> []" by (auto simp: non_main_def)
  from assms(2) have a: "rr_arr self = non_main self" by (simp add: rr_arr_def)
  from assms(2) have n: "non_main (self\<lparr>rr_state := x\<rparr>) \<noteq> []" by simp
  show ?thesis
    using invocations_round_robin[OF assms] invocations_round_robin[OF assms(1) n]
      run_macro_body_round_robin(2)[OF h assms(1)] a
    by simp
qed

text \<open>
  The example of the specification: the non-main handles 11, 12 and 13 and an index that
  starts at 0; four invocations target 11, 12, 13 and 11.
\<close>

theorem round_robin_cycle_witness:
  "target macro_rr = ''round_robin'' \<and> rr_index macro_rr = 0
   \<and> non_main ctrl_abc = [11, 12, 13]
   \<and> invocations 4 ctrl_abc macro_rr = [Some [11], Some [12], Some [13], Some [11]]"
proof -
  have h: "target macro_rr = ''round_robin''" "rr_index macro_rr = 0"
    "non_main ctrl_abc = [11, 12, 13]"
    by (simp_all add: macro_rr_def ctrl_abc_def non_main_def)
  have n: "non_main ctrl_abc \<noteq> []" by (simp add: h)
  have u: "[0..<4] = [0, 1, 2, 3]" by (simp add: upt_rec)
  from round_robin_cycle[OF h(1) n, of 4] h show ?thesis by (simp add: u)
qed

end
